theory Spec2Isabelle
  imports Main
begin

section \<open>The persisted relations\<close>

text \<open>
  The four tables of the migration (users, task_lists, tasks, task_list_shares).
  Identifiers are TEXT primary keys. A table is the list of its rows in insertion
  order, so that \<open>orderBy: { createdAt: 'desc' }\<close> is the reversed table.
  The timestamp columns carry no behaviour of their own and are left out.
\<close>

type_synonym ident = string

record user =
  user_id :: ident
  user_email :: string
  user_password :: string

record task_list =
  list_id :: ident
  list_title :: string
  ownerId :: ident

record task =
  task_id :: ident
  task_title :: string
  task_description :: "string option"
  task_status :: string
  taskListId :: ident

record share =
  share_id :: ident
  share_taskListId :: ident
  share_userId :: ident
  share_permission :: string

record db =
  users :: "user list"
  taskLists :: "task_list list"
  tasks :: "task list"
  taskListShares :: "share list"

definition empty_db :: db where
  "empty_db = \<lparr>users = [], taskLists = [], tasks = [], taskListShares = []\<rparr>"

section \<open>The Prisma queries the routes use\<close>

text \<open>\<open>findUnique\<close> returns the row or null; null is \<open>None\<close>.\<close>

definition user_findUnique_email :: "db \<Rightarrow> string \<Rightarrow> user option" where
  "user_findUnique_email d e = find (\<lambda>u. user_email u = e) (users d)"

definition user_findUnique_id :: "db \<Rightarrow> ident \<Rightarrow> user option" where
  "user_findUnique_id d i = find (\<lambda>u. user_id u = i) (users d)"

definition taskList_findUnique :: "db \<Rightarrow> ident \<Rightarrow> task_list option" where
  "taskList_findUnique d i = find (\<lambda>l. list_id l = i) (taskLists d)"

definition task_findUnique :: "db \<Rightarrow> ident \<Rightarrow> task option" where
  "task_findUnique d i = find (\<lambda>t. task_id t = i) (tasks d)"

definition share_findUnique :: "db \<Rightarrow> ident \<Rightarrow> share option" where
  "share_findUnique d i = find (\<lambda>s. share_id s = i) (taskListShares d)"

text \<open>The lookup on the compound unique key \<open>taskListId_userId\<close>.\<close>

definition share_findUnique_pair :: "db \<Rightarrow> ident \<Rightarrow> ident \<Rightarrow> share option" where
  "share_findUnique_pair d l u =
     find (\<lambda>s. share_taskListId s = l \<and> share_userId s = u) (taskListShares d)"

text \<open>
  A write that the store refuses makes the Prisma call throw; the route's
  \<open>catch\<close> turns that into a 500 response. The refusals are values here.
\<close>

datatype prisma_error = UniqueConstraint | ForeignKeyConstraint | RecordNotFound

definition user_create :: "db \<Rightarrow> user \<Rightarrow> prisma_error + db" where
  "user_create d u =
     (if user_id u \<in> set (map user_id (users d)) then Inl UniqueConstraint
      else if user_email u \<in> set (map user_email (users d)) then Inl UniqueConstraint
      else Inr (d\<lparr>users := users d @ [u]\<rparr>))"

definition taskList_create :: "db \<Rightarrow> task_list \<Rightarrow> prisma_error + db" where
  "taskList_create d l =
     (if list_id l \<in> set (map list_id (taskLists d)) then Inl UniqueConstraint
      else if ownerId l \<notin> set (map user_id (users d)) then Inl ForeignKeyConstraint
      else Inr (d\<lparr>taskLists := taskLists d @ [l]\<rparr>))"

text \<open>\<open>update\<close> returns the row as written, together with the new store.\<close>

definition taskList_update :: "db \<Rightarrow> ident \<Rightarrow> string \<Rightarrow> prisma_error + task_list \<times> db" where
  "taskList_update d i t =
     (case taskList_findUnique d i of
        None \<Rightarrow> Inl RecordNotFound
      | Some l0 \<Rightarrow>
          Inr (l0\<lparr>list_title := t\<rparr>,
               d\<lparr>taskLists :=
                   map (\<lambda>l. if list_id l = i then l\<lparr>list_title := t\<rparr> else l) (taskLists d)\<rparr>))"

text \<open>Deleting a list cascades to its tasks and its shares (ON DELETE CASCADE).\<close>

definition taskList_delete :: "db \<Rightarrow> ident \<Rightarrow> prisma_error + db" where
  "taskList_delete d i =
     (if i \<notin> set (map list_id (taskLists d)) then Inl RecordNotFound
      else Inr (d\<lparr>taskLists := filter (\<lambda>l. list_id l \<noteq> i) (taskLists d),
                  tasks := filter (\<lambda>t. taskListId t \<noteq> i) (tasks d),
                  taskListShares := filter (\<lambda>s. share_taskListId s \<noteq> i) (taskListShares d)\<rparr>))"

definition task_create :: "db \<Rightarrow> task \<Rightarrow> prisma_error + db" where
  "task_create d t =
     (if task_id t \<in> set (map task_id (tasks d)) then Inl UniqueConstraint
      else if taskListId t \<notin> set (map list_id (taskLists d)) then Inl ForeignKeyConstraint
      else Inr (d\<lparr>tasks := tasks d @ [t]\<rparr>))"

definition task_update :: "db \<Rightarrow> ident \<Rightarrow> (task \<Rightarrow> task) \<Rightarrow> prisma_error + task \<times> db" where
  "task_update d i f =
     (case task_findUnique d i of
        None \<Rightarrow> Inl RecordNotFound
      | Some t0 \<Rightarrow>
          Inr (f t0, d\<lparr>tasks := map (\<lambda>t. if task_id t = i then f t else t) (tasks d)\<rparr>))"

definition task_delete :: "db \<Rightarrow> ident \<Rightarrow> prisma_error + db" where
  "task_delete d i =
     (if i \<notin> set (map task_id (tasks d)) then Inl RecordNotFound
      else Inr (d\<lparr>tasks := filter (\<lambda>t. task_id t \<noteq> i) (tasks d)\<rparr>))"

definition share_create :: "db \<Rightarrow> share \<Rightarrow> prisma_error + db" where
  "share_create d s =
     (if share_id s \<in> set (map share_id (taskListShares d)) then Inl UniqueConstraint
      else if (share_taskListId s, share_userId s)
                \<in> set (map (\<lambda>x. (share_taskListId x, share_userId x)) (taskListShares d))
           then Inl UniqueConstraint
      else if share_taskListId s \<notin> set (map list_id (taskLists d)) then Inl ForeignKeyConstraint
      else if share_userId s \<notin> set (map user_id (users d)) then Inl ForeignKeyConstraint
      else Inr (d\<lparr>taskListShares := taskListShares d @ [s]\<rparr>))"

definition share_update :: "db \<Rightarrow> ident \<Rightarrow> string \<Rightarrow> prisma_error + share \<times> db" where
  "share_update d i p =
     (case share_findUnique d i of
        None \<Rightarrow> Inl RecordNotFound
      | Some s0 \<Rightarrow>
          Inr (s0\<lparr>share_permission := p\<rparr>,
               d\<lparr>taskListShares :=
                   map (\<lambda>s. if share_id s = i then s\<lparr>share_permission := p\<rparr> else s)
                       (taskListShares d)\<rparr>))"

definition share_delete :: "db \<Rightarrow> ident \<Rightarrow> prisma_error + db" where
  "share_delete d i =
     (if i \<notin> set (map share_id (taskListShares d)) then Inl RecordNotFound
      else Inr (d\<lparr>taskListShares := filter (\<lambda>s. share_id s \<noteq> i) (taskListShares d)\<rparr>))"

section \<open>The access helper of routes/tasks.js\<close>

text \<open>
  The object \<open>getUserPermission\<close> returns (its \<open>taskList\<close> field is \<open>taskList_row\<close>
  here). \<open>permission: null\<close> is \<open>None\<close>;
  the two failing returns carry no \<open>isOwner\<close> field, which is \<open>None\<close> too.
\<close>

record access =
  hasAccess :: bool
  permission :: "string option"
  taskList_row :: "task_list option"
  isOwner :: "bool option"

definition no_access :: access where
  "no_access = \<lparr>hasAccess = False, permission = None, taskList_row = None, isOwner = None\<rparr>"

text \<open>
  The query includes the list's shares restricted to \<open>userId\<close>; \<open>shares[0]\<close> is the
  first of them, \<open>undefined\<close> when there is none.
\<close>

definition getUserPermission :: "db \<Rightarrow> ident \<Rightarrow> ident \<Rightarrow> access" where
  "getUserPermission d taskListId' userId =
     (case taskList_findUnique d taskListId' of
        None \<Rightarrow> no_access
      | Some lst \<Rightarrow>
          (let shares = filter (\<lambda>s. share_taskListId s = list_id lst \<and> share_userId s = userId)
                               (taskListShares d)
           in if ownerId lst = userId
              then \<lparr>hasAccess = True, permission = Some ''owner'',
                    taskList_row = Some lst, isOwner = Some True\<rparr>
              else (case shares of
                      s # _ \<Rightarrow> \<lparr>hasAccess = True, permission = Some (share_permission s),
                                taskList_row = Some lst, isOwner = Some False\<rparr>
                    | [] \<Rightarrow> no_access)))"

section \<open>Constraints of the store\<close>

text \<open>
  The share table's unique index on (taskListId, userId), and the fact that the
  only permissions the routes ever write are the two the validators let through.
\<close>

definition shares_unique :: "db \<Rightarrow> bool" where
  "shares_unique d =
     distinct (map (\<lambda>s. (share_taskListId s, share_userId s)) (taskListShares d))"

definition permissions_valid :: "db \<Rightarrow> bool" where
  "permissions_valid d = list_all (\<lambda>s. share_permission s \<in> set [''view'', ''edit'']) (taskListShares d)"

section \<open>Requests and responses\<close>

text \<open>
  A response is the status given to \<open>res.status\<close> (200 when the route calls
  \<open>res.json\<close> directly) and the JSON object sent.
\<close>

datatype json =
    Error string
  | Errors "string list"
  | Message string
  | TasksPermission "task list" "string option"
  | MessageTask string task
  | MessageTaskList string task_list
  | MessageShare string share
  | MessageUserToken string ident string string

record response =
  status_code :: nat
  json_body :: json

text \<open>
  Functions of the libraries the routes call (express-validator's e-mail check and
  normaliser, bcrypt's comparison, the JWT helpers). They are parameters of the model:
  every theorem holds whatever they compute.
\<close>

record env =
  isEmail :: "string \<Rightarrow> bool"
  normalizeEmail :: "string \<Rightarrow> string"
  comparePassword :: "string \<Rightarrow> string \<Rightarrow> bool"
  generateToken :: "ident \<Rightarrow> string"
  verifyToken :: "string \<Rightarrow> ident option"

text \<open>
  Body fields are strings; a field the request leaves out (\<open>undefined\<close>) is \<open>None\<close>.
  A character is a code unit below 256. \<open>trim\<close> removes, at both ends, the characters
  that JavaScript's \<open>\s\<close> matches; among the code units below 256 these are the tab,
  the line feed, the vertical tab, the form feed, the carriage return, the blank and
  the no-break space U+00A0.
\<close>

definition is_space :: "char \<Rightarrow> bool" where
  "is_space c =
     (c \<in> set [CHR '' '', CHR 0x09, CHR 0x0A, CHR 0x0B, CHR 0x0C, CHR 0x0D, CHR 0xA0])"

definition trim :: "string \<Rightarrow> string" where
  "trim s = rev (dropWhile is_space (rev (dropWhile is_space s)))"

definition or_empty :: "string option \<Rightarrow> string" where
  "or_empty v = (case v of None \<Rightarrow> [] | Some s \<Rightarrow> s)"

record task_body =
  title :: "string option"
  description :: "string option"
  status :: "string option"

definition statuses :: "string list" where
  "statuses = [''pending'', ''in_progress'', ''completed'']"

text \<open>The three chains shared by POST and PUT of a task; \<open>optional()\<close> skips an absent field.\<close>

definition check_title :: "string \<Rightarrow> string \<Rightarrow> string list" where
  "check_title msg t =
     (if trim t = [] then [msg] else []) @
     (if length (trim t) > 200 then [''Title must be less than 200 characters''] else [])"

definition check_description :: "string option \<Rightarrow> string list" where
  "check_description v =
     (case v of
        None \<Rightarrow> []
      | Some s \<Rightarrow> if length (trim s) > 1000
                  then [''Description must be less than 1000 characters''] else [])"

definition check_status_optional :: "string option \<Rightarrow> string list" where
  "check_status_optional v =
     (case v of
        None \<Rightarrow> []
      | Some s \<Rightarrow> if s \<in> set statuses then [] else [''Invalid status''])"

definition validate_post_task :: "task_body \<Rightarrow> string list" where
  "validate_post_task b =
     check_title ''Title is required'' (or_empty (title b))
     @ check_description (description b) @ check_status_optional (status b)"

definition validate_put_task :: "task_body \<Rightarrow> string list" where
  "validate_put_task b =
     (case title b of None \<Rightarrow> [] | Some t \<Rightarrow> check_title ''Title cannot be empty'' t)
     @ check_description (description b) @ check_status_optional (status b)"

definition validate_patch_status :: "string option \<Rightarrow> string list" where
  "validate_patch_status v =
     (if or_empty v \<in> set statuses then [] else [''Invalid status''])"

text \<open>The sanitisers write the trimmed values back into \<open>req.body\<close>.\<close>

definition sanitize_post_task :: "task_body \<Rightarrow> task_body" where
  "sanitize_post_task b =
     b\<lparr>title := Some (trim (or_empty (title b))), description := map_option trim (description b)\<rparr>"

definition sanitize_put_task :: "task_body \<Rightarrow> task_body" where
  "sanitize_put_task b =
     b\<lparr>title := map_option trim (title b), description := map_option trim (description b)\<rparr>"

section \<open>routes/tasks.js\<close>

definition no_access_response :: response where
  "no_access_response =
     \<lparr>status_code = 403, json_body = Error ''You do not have access to this task list''\<rparr>"

definition get_tasks :: "db \<Rightarrow> ident \<Rightarrow> ident \<Rightarrow> response \<times> db" where
  "get_tasks d taskListId' userId =
     (let a = getUserPermission d taskListId' userId in
      if \<not> hasAccess a then (no_access_response, d)
      else (\<lparr>status_code = 200,
             json_body = TasksPermission (rev (filter (\<lambda>t. taskListId t = taskListId') (tasks d)))
                                         (permission a)\<rparr>, d))"

text \<open>
  \<open>newId\<close> is the primary key Prisma generates for the new row.
  \<open>description || null\<close> and \<open>status || 'pending'\<close> replace an absent or empty value.
\<close>

definition post_task :: "db \<Rightarrow> ident \<Rightarrow> ident \<Rightarrow> ident \<Rightarrow> task_body \<Rightarrow> response \<times> db" where
  "post_task d newId taskListId' userId body =
     (if validate_post_task body \<noteq> []
      then (\<lparr>status_code = 400, json_body = Errors (validate_post_task body)\<rparr>, d)
      else
        (let b = sanitize_post_task body; a = getUserPermission d taskListId' userId in
         if \<not> hasAccess a then (no_access_response, d)
         else if permission a = Some ''view''
         then (\<lparr>status_code = 403,
                 json_body = Error ''You need edit permission to add tasks''\<rparr>, d)
         else
           (let t = \<lparr>task_id = newId,
                     task_title = or_empty (title b),
                     task_description =
                       (case description b of
                          None \<Rightarrow> None
                        | Some s \<Rightarrow> if s = [] then None else Some s),
                     task_status =
                       (case status b of
                          None \<Rightarrow> ''pending''
                        | Some s \<Rightarrow> if s = [] then ''pending'' else s),
                     taskListId = taskListId'\<rparr>
            in case task_create d t of
                 Inl _ \<Rightarrow> (\<lparr>status_code = 500, json_body = Error ''Failed to create task''\<rparr>, d)
               | Inr d' \<Rightarrow>
                   (\<lparr>status_code = 201,
                     json_body = MessageTask ''Task created successfully'' t\<rparr>, d'))))"

text \<open>\<open>updateData\<close> holds exactly the fields of the body that are not \<open>undefined\<close>.\<close>

definition apply_updateData :: "task_body \<Rightarrow> task \<Rightarrow> task" where
  "apply_updateData u t =
     t\<lparr>task_title := (case title u of None \<Rightarrow> task_title t | Some x \<Rightarrow> x),
       task_description := (case description u of None \<Rightarrow> task_description t | Some x \<Rightarrow> Some x),
       task_status := (case status u of None \<Rightarrow> task_status t | Some x \<Rightarrow> x)\<rparr>"

definition task_not_found :: response where
  "task_not_found = \<lparr>status_code = 404, json_body = Error ''Task not found''\<rparr>"

definition task_wrong_list :: response where
  "task_wrong_list =
     \<lparr>status_code = 400, json_body = Error ''Task does not belong to this task list''\<rparr>"

definition put_task :: "db \<Rightarrow> ident \<Rightarrow> ident \<Rightarrow> ident \<Rightarrow> task_body \<Rightarrow> response \<times> db" where
  "put_task d taskListId' taskId userId body =
     (if validate_put_task body \<noteq> []
      then (\<lparr>status_code = 400, json_body = Errors (validate_put_task body)\<rparr>, d)
      else
        (let b = sanitize_put_task body; a = getUserPermission d taskListId' userId in
         if \<not> hasAccess a then (no_access_response, d)
         else if permission a = Some ''view''
         then (\<lparr>status_code = 403,
                 json_body = Error ''You need edit permission to update tasks''\<rparr>, d)
         else
           (case task_findUnique d taskId of
              None \<Rightarrow> (task_not_found, d)
            | Some existingTask \<Rightarrow>
                if taskListId existingTask \<noteq> taskListId' then (task_wrong_list, d)
                else
                  (case task_update d taskId (apply_updateData b) of
                     Inl _ \<Rightarrow>
                       (\<lparr>status_code = 500, json_body = Error ''Failed to update task''\<rparr>, d)
                   | Inr (updatedTask, d') \<Rightarrow>
                       (\<lparr>status_code = 200,
                         json_body = MessageTask ''Task updated successfully'' updatedTask\<rparr>,
                        d')))))"

definition patch_task_status ::
  "db \<Rightarrow> ident \<Rightarrow> ident \<Rightarrow> ident \<Rightarrow> string option \<Rightarrow> response \<times> db" where
  "patch_task_status d taskListId' taskId userId status' =
     (if validate_patch_status status' \<noteq> []
      then (\<lparr>status_code = 400, json_body = Errors (validate_patch_status status')\<rparr>, d)
      else
        (let a = getUserPermission d taskListId' userId in
         if \<not> hasAccess a then (no_access_response, d)
         else if permission a = Some ''view''
         then (\<lparr>status_code = 403,
                 json_body = Error ''You need edit permission to update task status''\<rparr>, d)
         else
           (case task_findUnique d taskId of
              None \<Rightarrow> (task_not_found, d)
            | Some existingTask \<Rightarrow>
                if taskListId existingTask \<noteq> taskListId' then (task_wrong_list, d)
                else
                  (case task_update d taskId (\<lambda>t. t\<lparr>task_status := or_empty status'\<rparr>) of
                     Inl _ \<Rightarrow>
                       (\<lparr>status_code = 500,
                         json_body = Error ''Failed to update task status''\<rparr>, d)
                   | Inr (updatedTask, d') \<Rightarrow>
                       (\<lparr>status_code = 200,
                         json_body = MessageTask ''Task status updated successfully'' updatedTask\<rparr>,
                        d')))))"

definition delete_task :: "db \<Rightarrow> ident \<Rightarrow> ident \<Rightarrow> ident \<Rightarrow> response \<times> db" where
  "delete_task d taskListId' taskId userId =
     (let a = getUserPermission d taskListId' userId in
      if \<not> hasAccess a then (no_access_response, d)
      else if permission a = Some ''view''
      then (\<lparr>status_code = 403,
              json_body = Error ''You need edit permission to delete tasks''\<rparr>, d)
      else
        (case task_findUnique d taskId of
           None \<Rightarrow> (task_not_found, d)
         | Some existingTask \<Rightarrow>
             if taskListId existingTask \<noteq> taskListId' then (task_wrong_list, d)
             else
               (case task_delete d taskId of
                  Inl _ \<Rightarrow> (\<lparr>status_code = 500, json_body = Error ''Failed to delete task''\<rparr>, d)
                | Inr d' \<Rightarrow>
                    (\<lparr>status_code = 200, json_body = Message ''Task deleted successfully''\<rparr>,
                     d'))))"

section \<open>routes/tasklists.js\<close>

definition list_not_found :: response where
  "list_not_found = \<lparr>status_code = 404, json_body = Error ''Task list not found''\<rparr>"

definition validate_taskList :: "string option \<Rightarrow> string list" where
  "validate_taskList t = check_title ''Title is required'' (or_empty t)"

definition post_taskList :: "db \<Rightarrow> ident \<Rightarrow> ident \<Rightarrow> string option \<Rightarrow> response \<times> db" where
  "post_taskList d newId userId title' =
     (if validate_taskList title' \<noteq> []
      then (\<lparr>status_code = 400, json_body = Errors (validate_taskList title')\<rparr>, d)
      else
        (let l = \<lparr>list_id = newId, list_title = trim (or_empty title'), ownerId = userId\<rparr>
         in case taskList_create d l of
              Inl _ \<Rightarrow>
                (\<lparr>status_code = 500, json_body = Error ''Failed to create task list''\<rparr>, d)
            | Inr d' \<Rightarrow>
                (\<lparr>status_code = 201,
                  json_body = MessageTaskList ''Task list created successfully'' l\<rparr>, d')))"

definition put_taskList :: "db \<Rightarrow> ident \<Rightarrow> ident \<Rightarrow> string option \<Rightarrow> response \<times> db" where
  "put_taskList d id' userId title' =
     (if validate_taskList title' \<noteq> []
      then (\<lparr>status_code = 400, json_body = Errors (validate_taskList title')\<rparr>, d)
      else
        (case taskList_findUnique d id' of
           None \<Rightarrow> (list_not_found, d)
         | Some lst \<Rightarrow>
             if ownerId lst \<noteq> userId
             then (\<lparr>status_code = 403,
                     json_body = Error ''Only the owner can update the task list''\<rparr>, d)
             else
               (case taskList_update d id' (trim (or_empty title')) of
                  Inl _ \<Rightarrow>
                    (\<lparr>status_code = 500, json_body = Error ''Failed to update task list''\<rparr>, d)
                | Inr (updatedTaskList, d') \<Rightarrow>
                    (\<lparr>status_code = 200,
                      json_body = MessageTaskList ''Task list updated successfully'' updatedTaskList\<rparr>,
                     d'))))"

definition delete_taskList :: "db \<Rightarrow> ident \<Rightarrow> ident \<Rightarrow> response \<times> db" where
  "delete_taskList d id' userId =
     (case taskList_findUnique d id' of
        None \<Rightarrow> (list_not_found, d)
      | Some lst \<Rightarrow>
          if ownerId lst \<noteq> userId
          then (\<lparr>status_code = 403,
                  json_body = Error ''Only the owner can delete the task list''\<rparr>, d)
          else
            (case taskList_delete d id' of
               Inl _ \<Rightarrow>
                 (\<lparr>status_code = 500, json_body = Error ''Failed to delete task list''\<rparr>, d)
             | Inr d' \<Rightarrow>
                 (\<lparr>status_code = 200, json_body = Message ''Task list deleted successfully''\<rparr>,
                  d')))"

section \<open>routes/shares.js\<close>

record share_body =
  email :: "string option"
  share_body_permission :: "string option"

definition permissions :: "string list" where
  "permissions = [''view'', ''edit'']"

definition check_email :: "env \<Rightarrow> string option \<Rightarrow> string list" where
  "check_email e v = (if isEmail e (or_empty v) then [] else [''Please provide a valid email''])"

definition check_permission :: "string option \<Rightarrow> string list" where
  "check_permission v =
     (if or_empty v \<in> set permissions then []
      else [''Permission must be either \"view\" or \"edit\"''])"

definition validate_post_share :: "env \<Rightarrow> share_body \<Rightarrow> string list" where
  "validate_post_share e b = check_email e (email b) @ check_permission (share_body_permission b)"

definition share_not_found :: response where
  "share_not_found = \<lparr>status_code = 404, json_body = Error ''Share not found''\<rparr>"

definition share_wrong_list :: response where
  "share_wrong_list =
     \<lparr>status_code = 400, json_body = Error ''Share does not belong to this task list''\<rparr>"

definition post_share ::
  "env \<Rightarrow> db \<Rightarrow> ident \<Rightarrow> ident \<Rightarrow> ident \<Rightarrow> share_body \<Rightarrow> response \<times> db" where
  "post_share e d newId taskListId' userId body =
     (if validate_post_share e body \<noteq> []
      then (\<lparr>status_code = 400, json_body = Errors (validate_post_share e body)\<rparr>, d)
      else
        (let email' = normalizeEmail e (or_empty (email body));
             permission' = or_empty (share_body_permission body)
         in case taskList_findUnique d taskListId' of
              None \<Rightarrow> (list_not_found, d)
            | Some lst \<Rightarrow>
                if ownerId lst \<noteq> userId
                then (\<lparr>status_code = 403,
                        json_body = Error ''Only the owner can share the task list''\<rparr>, d)
                else
                  (case user_findUnique_email d email' of
                     None \<Rightarrow>
                       (\<lparr>status_code = 404,
                         json_body = Error ''User with this email is not registered in the system''\<rparr>,
                        d)
                   | Some userToShareWith \<Rightarrow>
                       if user_id userToShareWith = userId
                       then (\<lparr>status_code = 400,
                               json_body = Error ''You cannot share a task list with yourself''\<rparr>, d)
                       else
                         (case share_findUnique_pair d taskListId' (user_id userToShareWith) of
                            Some existingShare \<Rightarrow>
                              (\<lparr>status_code = 400,
                                json_body = Error ''Task list is already shared with this user''\<rparr>,
                               d)
                          | None \<Rightarrow>
                              (let s = \<lparr>share_id = newId, share_taskListId = taskListId',
                                        share_userId = user_id userToShareWith,
                                        share_permission = permission'\<rparr>
                               in case share_create d s of
                                    Inl _ \<Rightarrow>
                                      (\<lparr>status_code = 500,
                                        json_body = Error ''Failed to share task list''\<rparr>, d)
                                  | Inr d' \<Rightarrow>
                                      (\<lparr>status_code = 201,
                                        json_body = MessageShare ''Task list shared successfully'' s\<rparr>,
                                       d'))))))"

definition put_share ::
  "db \<Rightarrow> ident \<Rightarrow> ident \<Rightarrow> ident \<Rightarrow> string option \<Rightarrow> response \<times> db" where
  "put_share d taskListId' shareId userId permission' =
     (if check_permission permission' \<noteq> []
      then (\<lparr>status_code = 400, json_body = Errors (check_permission permission')\<rparr>, d)
      else
        (case taskList_findUnique d taskListId' of
           None \<Rightarrow> (list_not_found, d)
         | Some lst \<Rightarrow>
             if ownerId lst \<noteq> userId
             then (\<lparr>status_code = 403,
                     json_body = Error ''Only the owner can update permissions''\<rparr>, d)
             else
               (case share_findUnique d shareId of
                  None \<Rightarrow> (share_not_found, d)
                | Some share' \<Rightarrow>
                    if share_taskListId share' \<noteq> taskListId' then (share_wrong_list, d)
                    else
                      (case share_update d shareId (or_empty permission') of
                         Inl _ \<Rightarrow>
                           (\<lparr>status_code = 500,
                             json_body = Error ''Failed to update permission''\<rparr>, d)
                       | Inr (updatedShare, d') \<Rightarrow>
                           (\<lparr>status_code = 200,
                             json_body = MessageShare ''Permission updated successfully'' updatedShare\<rparr>,
                            d')))))"

definition delete_share :: "db \<Rightarrow> ident \<Rightarrow> ident \<Rightarrow> ident \<Rightarrow> response \<times> db" where
  "delete_share d taskListId' shareId userId =
     (case taskList_findUnique d taskListId' of
        None \<Rightarrow> (list_not_found, d)
      | Some lst \<Rightarrow>
          if ownerId lst \<noteq> userId
          then (\<lparr>status_code = 403,
                  json_body = Error ''Only the owner can remove access''\<rparr>, d)
          else
            (case share_findUnique d shareId of
               None \<Rightarrow> (share_not_found, d)
             | Some share' \<Rightarrow>
                 if share_taskListId share' \<noteq> taskListId' then (share_wrong_list, d)
                 else
                   (case share_delete d shareId of
                      Inl _ \<Rightarrow>
                        (\<lparr>status_code = 500, json_body = Error ''Failed to remove access''\<rparr>, d)
                    | Inr d' \<Rightarrow>
                        (\<lparr>status_code = 200, json_body = Message ''Access removed successfully''\<rparr>,
                         d'))))"

section \<open>routes/auth.js and middleware/auth.js\<close>

text \<open>
  The password of a body is not sanitised, so the routes receive it as the JSON value
  sent: a string, \<open>null\<close>, or any other value (a number, a boolean, an object, an
  array), which carries the text that the validators read for it. \<open>toString\<close> is
  that text; it is empty for \<open>null\<close> and for an absent field.
\<close>

datatype json_value = JString string | JNull | JOther string

definition toString :: "json_value option \<Rightarrow> string" where
  "toString v =
     (case v of
        None \<Rightarrow> []
      | Some (JString s) \<Rightarrow> s
      | Some JNull \<Rightarrow> []
      | Some (JOther r) \<Rightarrow> r)"

record auth_body =
  auth_email :: "string option"
  auth_password :: "json_value option"

definition validate_register :: "env \<Rightarrow> auth_body \<Rightarrow> string list" where
  "validate_register e b =
     check_email e (auth_email b)
     @ (if length (toString (auth_password b)) < 6
        then [''Password must be at least 6 characters long''] else [])"

definition validate_login :: "env \<Rightarrow> auth_body \<Rightarrow> string list" where
  "validate_login e b =
     check_email e (auth_email b)
     @ (if toString (auth_password b) = [] then [''Password is required''] else [])"

text \<open>
  bcryptjs works on strings only: \<open>hash\<close> and \<open>compare\<close> reject when the password
  handed to them is not a string, and the route's \<open>catch\<close> answers 500.
\<close>

definition as_string :: "json_value option \<Rightarrow> string option" where
  "as_string v = (case v of Some (JString s) \<Rightarrow> Some s | _ \<Rightarrow> None)"

text \<open>\<open>hashedPassword\<close> is what \<open>hashPassword\<close> returned for this request (the salt is random).\<close>

definition register :: "env \<Rightarrow> db \<Rightarrow> ident \<Rightarrow> string \<Rightarrow> auth_body \<Rightarrow> response \<times> db" where
  "register e d newId hashedPassword body =
     (if validate_register e body \<noteq> []
      then (\<lparr>status_code = 400, json_body = Errors (validate_register e body)\<rparr>, d)
      else
        (let email' = normalizeEmail e (or_empty (auth_email body)) in
         case user_findUnique_email d email' of
           Some existingUser \<Rightarrow>
             (\<lparr>status_code = 400, json_body = Error ''User with this email already exists''\<rparr>, d)
         | None \<Rightarrow>
             (case as_string (auth_password body) of
                None \<Rightarrow>
                  (\<lparr>status_code = 500, json_body = Error ''Failed to register user''\<rparr>, d)
              | Some password' \<Rightarrow>
                  (let u = \<lparr>user_id = newId, user_email = email',
                            user_password = hashedPassword\<rparr>
                   in case user_create d u of
                        Inl _ \<Rightarrow>
                          (\<lparr>status_code = 500, json_body = Error ''Failed to register user''\<rparr>,
                           d)
                      | Inr d' \<Rightarrow>
                          (\<lparr>status_code = 201,
                            json_body = MessageUserToken ''User registered successfully''
                                          newId email' (generateToken e newId)\<rparr>, d')))))"

definition login :: "env \<Rightarrow> db \<Rightarrow> auth_body \<Rightarrow> response \<times> db" where
  "login e d body =
     (if validate_login e body \<noteq> []
      then (\<lparr>status_code = 400, json_body = Errors (validate_login e body)\<rparr>, d)
      else
        (let email' = normalizeEmail e (or_empty (auth_email body)) in
         case user_findUnique_email d email' of
           None \<Rightarrow> (\<lparr>status_code = 401, json_body = Error ''Invalid email or password''\<rparr>, d)
         | Some u \<Rightarrow>
             (case as_string (auth_password body) of
                None \<Rightarrow> (\<lparr>status_code = 500, json_body = Error ''Failed to login''\<rparr>, d)
              | Some password' \<Rightarrow>
                  if \<not> comparePassword e password' (user_password u)
                  then (\<lparr>status_code = 401,
                          json_body = Error ''Invalid email or password''\<rparr>, d)
                  else (\<lparr>status_code = 200,
                         json_body = MessageUserToken ''Login successful'' (user_id u)
                                       (user_email u) (generateToken e (user_id u))\<rparr>, d))))"

text \<open>
  The middleware in front of every route but the two above: the Authorization header
  (absent: \<open>None\<close>) must start with \<open>Bearer\<close> and a blank, the rest must verify,
  and the user the token names must still exist.
\<close>

definition unauthorized :: "string \<Rightarrow> response" where
  "unauthorized msg = \<lparr>status_code = 401, json_body = Error msg\<rparr>"

definition authenticate :: "env \<Rightarrow> db \<Rightarrow> string option \<Rightarrow> response + user" where
  "authenticate e d authHeader =
     (if take 7 (or_empty authHeader) \<noteq> ''Bearer ''
      then Inl (unauthorized ''No token provided. Please authenticate.'')
      else
        (case verifyToken e (drop 7 (or_empty authHeader)) of
           None \<Rightarrow> Inl (unauthorized ''Invalid or expired token. Please login again.'')
         | Some uid \<Rightarrow>
             (case user_findUnique_id d uid of
                None \<Rightarrow> Inl (unauthorized ''User not found. Please login again.'')
              | Some u \<Rightarrow> Inr u)))"

section \<open>The server as a transition system\<close>

text \<open>
  One constructor per route that can write to the store (and the task listing); the
  first argument of an authenticated route is the Authorization header. The remaining
  GET routes only read. A call carries what the server draws for it: the new row's
  primary key, and for registration the salted hash.
\<close>

datatype api_call =
    Register ident string auth_body
  | Login auth_body
  | GetTasks "string option" ident
  | PostTask "string option" ident ident task_body
  | PutTask "string option" ident ident task_body
  | PatchTaskStatus "string option" ident ident "string option"
  | DeleteTask "string option" ident ident
  | PostTaskList "string option" ident "string option"
  | PutTaskList "string option" ident "string option"
  | DeleteTaskList "string option" ident
  | PostShare "string option" ident ident share_body
  | PutShare "string option" ident ident "string option"
  | DeleteShare "string option" ident ident

definition authenticated ::
  "env \<Rightarrow> db \<Rightarrow> string option \<Rightarrow> (ident \<Rightarrow> response \<times> db) \<Rightarrow> response \<times> db" where
  "authenticated e d authHeader route =
     (case authenticate e d authHeader of
        Inl r \<Rightarrow> (r, d)
      | Inr u \<Rightarrow> route (user_id u))"

fun handle :: "env \<Rightarrow> db \<Rightarrow> api_call \<Rightarrow> response \<times> db" where
  "handle e d (Register newId hashed body) = register e d newId hashed body"
| "handle e d (Login body) = login e d body"
| "handle e d (GetTasks h l) = authenticated e d h (get_tasks d l)"
| "handle e d (PostTask h newId l body) = authenticated e d h (\<lambda>u. post_task d newId l u body)"
| "handle e d (PutTask h l t body) = authenticated e d h (\<lambda>u. put_task d l t u body)"
| "handle e d (PatchTaskStatus h l t st) = authenticated e d h (\<lambda>u. patch_task_status d l t u st)"
| "handle e d (DeleteTask h l t) = authenticated e d h (delete_task d l t)"
| "handle e d (PostTaskList h newId t) = authenticated e d h (\<lambda>u. post_taskList d newId u t)"
| "handle e d (PutTaskList h l t) = authenticated e d h (\<lambda>u. put_taskList d l u t)"
| "handle e d (DeleteTaskList h l) = authenticated e d h (delete_taskList d l)"
| "handle e d (PostShare h newId l body) = authenticated e d h (\<lambda>u. post_share e d newId l u body)"
| "handle e d (PutShare h l s p) = authenticated e d h (\<lambda>u. put_share d l s u p)"
| "handle e d (DeleteShare h l s) = authenticated e d h (delete_share d l s)"

text \<open>The store after a sequence of requests, served one after the other.\<close>

fun run :: "env \<Rightarrow> db \<Rightarrow> api_call list \<Rightarrow> db" where
  "run e d [] = d"
| "run e d (c # cs) = run e (snd (handle e d c)) cs"

text \<open>
  Further facts about the store that every sequence of requests maintains: list keys
  are unique, a share refers to a stored list, and no share is held by the owner of
  its list.
\<close>

definition lists_distinct :: "db \<Rightarrow> bool" where
  "lists_distinct d = distinct (map list_id (taskLists d))"

definition shares_reference_lists :: "db \<Rightarrow> bool" where
  "shares_reference_lists d =
     list_all (\<lambda>s. share_taskListId s \<in> set (map list_id (taskLists d))) (taskListShares d)"

definition no_self_share :: "db \<Rightarrow> bool" where
  "no_self_share d =
     list_all (\<lambda>s. list_all (\<lambda>l. list_id l = share_taskListId s \<longrightarrow> ownerId l \<noteq> share_userId s)
                          (taskLists d))
              (taskListShares d)"

definition store_ok :: "db \<Rightarrow> bool" where
  "store_ok d \<longleftrightarrow>
     lists_distinct d \<and> shares_reference_lists d \<and> no_self_share d
     \<and> shares_unique d \<and> permissions_valid d"

section \<open>A small store for concrete runs\<close>

text \<open>
  Three users; u1 owns list l1 and u2 owns list l2; u2 may view l1 and u3 may edit it;
  one task in each list.
\<close>

definition demo_db :: db where
  "demo_db =
     \<lparr>users = [\<lparr>user_id = ''u1'', user_email = ''a@x.com'', user_password = ''h1''\<rparr>,
               \<lparr>user_id = ''u2'', user_email = ''b@x.com'', user_password = ''h2''\<rparr>,
               \<lparr>user_id = ''u3'', user_email = ''c@x.com'', user_password = ''h3''\<rparr>],
      taskLists = [\<lparr>list_id = ''l1'', list_title = ''Groceries'', ownerId = ''u1''\<rparr>,
                   \<lparr>list_id = ''l2'', list_title = ''Work'', ownerId = ''u2''\<rparr>],
      tasks = [\<lparr>task_id = ''t1'', task_title = ''Milk'', task_description = None,
                task_status = ''pending'', taskListId = ''l1''\<rparr>,
               \<lparr>task_id = ''t2'', task_title = ''Report'', task_description = Some ''Q3'',
                task_status = ''in_progress'', taskListId = ''l2''\<rparr>],
      taskListShares = [\<lparr>share_id = ''s1'', share_taskListId = ''l1'', share_userId = ''u2'',
                         share_permission = ''view''\<rparr>,
                        \<lparr>share_id = ''s2'', share_taskListId = ''l1'', share_userId = ''u3'',
                         share_permission = ''edit''\<rparr>]\<rparr>"

text \<open>
  Stand-ins for the library functions in concrete runs: an address is anything with an
  at sign and is normalised to itself, the hash of a password is the password behind
  the letter h, and a token is the user's id behind a fixed prefix.
\<close>

definition demo_env :: env where
  "demo_env =
     \<lparr>isEmail = (\<lambda>s. CHR ''@'' \<in> set s),
      normalizeEmail = (\<lambda>s. s),
      comparePassword = (\<lambda>p h. h = CHR ''h'' # p),
      generateToken = (\<lambda>u. ''tok:'' @ u),
      verifyToken = (\<lambda>t. if take 4 t = ''tok:'' then Some (drop 4 t) else None)\<rparr>"

text \<open>
  A run from the empty store: two registrations, then u1 creates the list l1 and shares
  it with u2; and the store it ends in.
\<close>

definition demo_calls :: "api_call list" where
  "demo_calls =
     [Register ''u1'' ''hsecret''
        \<lparr>auth_email = Some ''a@x.com'', auth_password = Some (JString ''secret'')\<rparr>,
      Register ''u2'' ''hhidden''
        \<lparr>auth_email = Some ''b@x.com'', auth_password = Some (JString ''hidden'')\<rparr>,
      PostTaskList (Some ''Bearer tok:u1'') ''l1'' (Some ''Groceries''),
      PostShare (Some ''Bearer tok:u1'') ''s1'' ''l1''
        \<lparr>email = Some ''b@x.com'', share_body_permission = Some ''view''\<rparr>]"

definition demo_reached :: db where
  "demo_reached =
     \<lparr>users = [\<lparr>user_id = ''u1'', user_email = ''a@x.com'', user_password = ''hsecret''\<rparr>,
               \<lparr>user_id = ''u2'', user_email = ''b@x.com'', user_password = ''hhidden''\<rparr>],
      taskLists = [\<lparr>list_id = ''l1'', list_title = ''Groceries'', ownerId = ''u1''\<rparr>],
      tasks = [],
      taskListShares = [\<lparr>share_id = ''s1'', share_taskListId = ''l1'', share_userId = ''u2'',
                         share_permission = ''view''\<rparr>]\<rparr>"

section \<open>Lookups\<close>

lemma find_filter_hd: "find P xs = (case filter P xs of [] \<Rightarrow> None | x # _ \<Rightarrow> Some x)"
  by (induction xs) auto

lemma taskList_findUnique_SomeD:
  "taskList_findUnique d L = Some l \<Longrightarrow> list_id l = L \<and> l \<in> set (taskLists d)"
  by (auto simp: taskList_findUnique_def find_Some_iff)

lemma share_findUnique_pair_SomeD:
  "share_findUnique_pair d L U = Some s \<Longrightarrow>
     share_taskListId s = L \<and> share_userId s = U \<and> s \<in> set (taskListShares d)"
  by (auto simp: share_findUnique_pair_def find_Some_iff)

lemma share_findUnique_pair_unique:
  assumes "shares_unique d" and "s \<in> set (taskListShares d)"
      and "share_taskListId s = L" and "share_userId s = U"
  shows "share_findUnique_pair d L U = Some s"
proof -
  from assms(2-4) obtain s' where f: "share_findUnique_pair d L U = Some s'"
    unfolding share_findUnique_pair_def
    by (cases "find (\<lambda>s. share_taskListId s = L \<and> share_userId s = U) (taskListShares d)")
       (auto simp: find_None_iff)
  from share_findUnique_pair_SomeD[OF f]
  have k: "share_taskListId s' = L" "share_userId s' = U"
    and m: "s' \<in> set (taskListShares d)" by auto
  from assms(1)
  have "inj_on (\<lambda>s. (share_taskListId s, share_userId s)) (set (taskListShares d))"
    by (simp add: shares_unique_def distinct_map)
  with m assms(2-4) k have "s' = s" by (auto dest: inj_onD)
  with f show ?thesis by simp
qed

text \<open>For a stored list the helper is a three-way case on the owner and the share.\<close>

lemma getUserPermission_found:
  assumes "taskList_findUnique d L = Some l"
  shows "getUserPermission d L U =
           (if ownerId l = U
            then \<lparr>hasAccess = True, permission = Some ''owner'',
                  taskList_row = Some l, isOwner = Some True\<rparr>
            else (case share_findUnique_pair d L U of
                    Some s \<Rightarrow> \<lparr>hasAccess = True, permission = Some (share_permission s),
                               taskList_row = Some l, isOwner = Some False\<rparr>
                  | None \<Rightarrow> no_access))"
  using assms taskList_findUnique_SomeD[OF assms]
  by (simp add: getUserPermission_def share_findUnique_pair_def find_filter_hd Let_def
           split: list.splits)

lemma permissions_validD:
  "permissions_valid d \<Longrightarrow> s \<in> set (taskListShares d) \<Longrightarrow>
     share_permission s = ''view'' \<or> share_permission s = ''edit''"
  by (auto simp: permissions_valid_def list_all_iff)

section \<open>The resolved tier\<close>

text \<open>
  Claim C3. For a stored list L and any user U, the permission that
  \<open>getUserPermission\<close> resolves is one of none (\<open>null\<close>), view, edit and owner.
  It is owner exactly when U owns L; for any other user it is the permission of the
  share stored for (L, U), and none when there is no such share. Access is granted
  exactly when the tier is not none. The store is assumed to respect the unique index
  on (list, user) and to hold only the permissions the share routes accept.
\<close>

theorem getUserPermission_tier:
  assumes "taskList_findUnique d L = Some l"
      and "permissions_valid d" and "shares_unique d"
  shows "permission (getUserPermission d L U) \<in> {None, Some ''view'', Some ''edit'', Some ''owner''}
       \<and> (permission (getUserPermission d L U) = Some ''owner'' \<longleftrightarrow> ownerId l = U)
       \<and> (ownerId l \<noteq> U \<longrightarrow>
            permission (getUserPermission d L U)
              = map_option share_permission (share_findUnique_pair d L U))
       \<and> (\<forall>s \<in> set (taskListShares d).
             ownerId l \<noteq> U \<and> share_taskListId s = L \<and> share_userId s = U
             \<longrightarrow> permission (getUserPermission d L U) = Some (share_permission s))
       \<and> (hasAccess (getUserPermission d L U) \<longleftrightarrow> permission (getUserPermission d L U) \<noteq> None)"
proof (cases "ownerId l = U")
  case True
  then show ?thesis by (simp add: getUserPermission_found[OF assms(1)])
next
  case False
  show ?thesis
  proof (cases "share_findUnique_pair d L U")
    case None
    have "\<forall>s \<in> set (taskListShares d). \<not> (share_taskListId s = L \<and> share_userId s = U)"
      using None by (auto simp: share_findUnique_pair_def find_None_iff)
    with False None show ?thesis
      by (auto simp: getUserPermission_found[OF assms(1)] no_access_def)
  next
    case (Some s)
    from share_findUnique_pair_SomeD[OF Some] assms(2)
    have v: "share_permission s = ''view'' \<or> share_permission s = ''edit''"
      by (auto dest: permissions_validD)
    have u: "\<forall>s' \<in> set (taskListShares d).
               share_taskListId s' = L \<and> share_userId s' = U \<longrightarrow> s' = s"
      using share_findUnique_pair_unique[OF assms(3)] Some by auto
    from False Some v u show ?thesis
      by (auto simp: getUserPermission_found[OF assms(1)])
  qed
qed

theorem getUserPermission_tier_witness:
  "taskList_findUnique demo_db ''l1''
     = Some \<lparr>list_id = ''l1'', list_title = ''Groceries'', ownerId = ''u1''\<rparr>
   \<and> permissions_valid demo_db \<and> shares_unique demo_db
   \<and> permission (getUserPermission demo_db ''l1'' ''u1'') = Some ''owner''
   \<and> permission (getUserPermission demo_db ''l1'' ''u2'') = Some ''view''
   \<and> permission (getUserPermission demo_db ''l1'' ''u3'') = Some ''edit''
   \<and> permission (getUserPermission demo_db ''l2'' ''u3'') = None"
proof -
  have l: "taskList_findUnique demo_db ''l1''
             = Some \<lparr>list_id = ''l1'', list_title = ''Groceries'', ownerId = ''u1''\<rparr>"
    by (simp add: taskList_findUnique_def demo_db_def)
  have p: "permissions_valid demo_db"
    by (simp add: permissions_valid_def demo_db_def)
  have u: "shares_unique demo_db"
    by (simp add: shares_unique_def demo_db_def)
  have f: "share_findUnique_pair demo_db ''l1'' ''u2''
             = Some \<lparr>share_id = ''s1'', share_taskListId = ''l1'', share_userId = ''u2'',
                     share_permission = ''view''\<rparr>"
          "share_findUnique_pair demo_db ''l1'' ''u3''
             = Some \<lparr>share_id = ''s2'', share_taskListId = ''l1'', share_userId = ''u3'',
                     share_permission = ''edit''\<rparr>"
    by (simp_all add: share_findUnique_pair_def demo_db_def)
  have n: "permission (getUserPermission demo_db ''l2'' ''u3'') = None"
    by (simp add: getUserPermission_def taskList_findUnique_def demo_db_def no_access_def)
  from getUserPermission_tier[OF l p u, of "''u1''"] getUserPermission_tier[OF l p u, of "''u2''"]
       getUserPermission_tier[OF l p u, of "''u3''"] l p u f n
  show ?thesis by simp
qed

lemma permission_Some_hasAccess:
  "permission (getUserPermission d L U) = Some p \<Longrightarrow> hasAccess (getUserPermission d L U)"
  by (auto simp: getUserPermission_def no_access_def Let_def
           split: option.splits list.splits if_splits)

lemma getUserPermission_missing:
  "taskList_findUnique d L = None \<Longrightarrow> getUserPermission d L U = no_access"
  by (simp add: getUserPermission_def)

lemma demo_bodies_valid:
  "validate_post_task \<lparr>title = Some ''Eggs'', description = None, status = None\<rparr> = []"
  "validate_put_task \<lparr>title = None, description = None, status = Some ''completed''\<rparr> = []"
  "validate_patch_status (Some ''completed'') = []"
  "validate_taskList (Some ''Shopping'') = []"
  by (simp_all add: validate_post_task_def validate_put_task_def validate_patch_status_def
        validate_taskList_def check_title_def check_description_def check_status_optional_def
        statuses_def or_empty_def trim_def is_space_def)

section \<open>Task routes on a list that is not stored\<close>

text \<open>
  Claim C2, as stated, fails: it says that a task route called with the id of a list
  that does not exist answers 404 NotFound. Listing the tasks of the unknown list l9
  answers 403.
\<close>

theorem missing_list_forbidden_counterexample:
  "taskList_findUnique demo_db ''l9'' = None
   \<and> status_code (fst (get_tasks demo_db ''l9'' ''u1'')) = 403
   \<and> status_code (fst (get_tasks demo_db ''l9'' ''u1'')) \<noteq> 404"
  by (simp add: taskList_findUnique_def demo_db_def get_tasks_def getUserPermission_def
        no_access_def no_access_response_def)

text \<open>
  Claim C2, amended. \<open>getUserPermission\<close> reports a missing list exactly as it reports
  a list the caller has no share of, so each of the five task routes (list, create,
  update, status change, delete), called with the id of a list that is not stored,
  answers 403 with the message that the caller has no access to the list, and leaves
  the store as it was. The three routes with a body answer 400 first when the body
  fails validation.
\<close>

theorem missing_list_forbidden:
  assumes "taskList_findUnique d L = None"
  shows "get_tasks d L U = (no_access_response, d)
       \<and> delete_task d L T U = (no_access_response, d)
       \<and> post_task d n L U b =
           (if validate_post_task b = [] then no_access_response
            else \<lparr>status_code = 400, json_body = Errors (validate_post_task b)\<rparr>, d)
       \<and> put_task d L T U b =
           (if validate_put_task b = [] then no_access_response
            else \<lparr>status_code = 400, json_body = Errors (validate_put_task b)\<rparr>, d)
       \<and> patch_task_status d L T U st =
           (if validate_patch_status st = [] then no_access_response
            else \<lparr>status_code = 400, json_body = Errors (validate_patch_status st)\<rparr>, d)
       \<and> no_access_response
           = \<lparr>status_code = 403, json_body = Error ''You do not have access to this task list''\<rparr>"
  using getUserPermission_missing[OF assms]
  by (simp add: get_tasks_def delete_task_def post_task_def put_task_def patch_task_status_def
        no_access_def no_access_response_def Let_def)

theorem missing_list_forbidden_witness:
  "taskList_findUnique demo_db ''l9'' = None
   \<and> get_tasks demo_db ''l9'' ''u1'' = (no_access_response, demo_db)
   \<and> delete_task demo_db ''l9'' ''t1'' ''u1'' = (no_access_response, demo_db)
   \<and> post_task demo_db ''t3'' ''l9'' ''u1''
        \<lparr>title = Some ''Eggs'', description = None, status = None\<rparr>
       = (no_access_response, demo_db)
   \<and> put_task demo_db ''l9'' ''t1'' ''u1''
        \<lparr>title = None, description = None, status = Some ''completed''\<rparr>
       = (no_access_response, demo_db)
   \<and> patch_task_status demo_db ''l9'' ''t1'' ''u1'' (Some ''completed'')
       = (no_access_response, demo_db)"
proof -
  have l: "taskList_findUnique demo_db ''l9'' = None"
    by (simp add: taskList_findUnique_def demo_db_def)
  from missing_list_forbidden[OF l, of "''u1''" "''t1''" "''t3''"
         "\<lparr>title = Some ''Eggs'', description = None, status = None\<rparr>"]
       missing_list_forbidden[OF l, of "''u1''" "''t1''" "''t3''"
         "\<lparr>title = None, description = None, status = Some ''completed''\<rparr>"
         "Some ''completed''"]
       l demo_bodies_valid
  show ?thesis by simp
qed

section \<open>What a view share allows\<close>

text \<open>
  Claim C4. A user whose resolved permission on a list is view can list its tasks
  (200, with the tasks newest first and the permission), and is refused every task
  mutation: creating, updating, changing the status of and deleting a task each
  answer 403 Forbidden and leave the store unchanged. (A body that fails validation is
  answered 400 before the access check; the store is unchanged then too.)
\<close>

theorem view_tier_read_only:
  assumes "permission (getUserPermission d L U) = Some ''view''"
  shows "get_tasks d L U =
           (\<lparr>status_code = 200,
             json_body = TasksPermission (rev (filter (\<lambda>t. taskListId t = L) (tasks d)))
                                         (Some ''view'')\<rparr>, d)
       \<and> post_task d n L U b =
           (if validate_post_task b = []
            then \<lparr>status_code = 403, json_body = Error ''You need edit permission to add tasks''\<rparr>
            else \<lparr>status_code = 400, json_body = Errors (validate_post_task b)\<rparr>, d)
       \<and> put_task d L T U b =
           (if validate_put_task b = []
            then \<lparr>status_code = 403,
                  json_body = Error ''You need edit permission to update tasks''\<rparr>
            else \<lparr>status_code = 400, json_body = Errors (validate_put_task b)\<rparr>, d)
       \<and> patch_task_status d L T U st =
           (if validate_patch_status st = []
            then \<lparr>status_code = 403,
                  json_body = Error ''You need edit permission to update task status''\<rparr>
            else \<lparr>status_code = 400, json_body = Errors (validate_patch_status st)\<rparr>, d)
       \<and> delete_task d L T U =
           (\<lparr>status_code = 403,
             json_body = Error ''You need edit permission to delete tasks''\<rparr>, d)"
  using assms permission_Some_hasAccess[OF assms]
  by (simp add: get_tasks_def delete_task_def post_task_def put_task_def patch_task_status_def
        Let_def)

theorem view_tier_read_only_witness:
  "permission (getUserPermission demo_db ''l1'' ''u2'') = Some ''view''
   \<and> status_code (fst (get_tasks demo_db ''l1'' ''u2'')) = 200
   \<and> post_task demo_db ''t3'' ''l1'' ''u2''
        \<lparr>title = Some ''Eggs'', description = None, status = None\<rparr>
       = (\<lparr>status_code = 403, json_body = Error ''You need edit permission to add tasks''\<rparr>,
          demo_db)
   \<and> put_task demo_db ''l1'' ''t1'' ''u2''
        \<lparr>title = None, description = None, status = Some ''completed''\<rparr>
       = (\<lparr>status_code = 403, json_body = Error ''You need edit permission to update tasks''\<rparr>,
          demo_db)
   \<and> patch_task_status demo_db ''l1'' ''t1'' ''u2'' (Some ''completed'')
       = (\<lparr>status_code = 403,
            json_body = Error ''You need edit permission to update task status''\<rparr>, demo_db)
   \<and> delete_task demo_db ''l1'' ''t1'' ''u2''
       = (\<lparr>status_code = 403, json_body = Error ''You need edit permission to delete tasks''\<rparr>,
          demo_db)"
proof -
  have p: "permission (getUserPermission demo_db ''l1'' ''u2'') = Some ''view''"
    by (simp add: getUserPermission_def taskList_findUnique_def demo_db_def)
  from view_tier_read_only[OF p, of "''t3''"
         "\<lparr>title = Some ''Eggs'', description = None, status = None\<rparr>" "''t1''"]
       view_tier_read_only[OF p, of "''t3''"
         "\<lparr>title = None, description = None, status = Some ''completed''\<rparr>" "''t1''"
         "Some ''completed''"]
       p demo_bodies_valid
  show ?thesis by simp
qed

section \<open>Owner-only changes to a list\<close>

text \<open>
  Claim C5. On a stored list, a caller who is not its owner cannot update or delete
  it, whatever share the caller holds: both routes answer 403 Forbidden and the
  store (the list, its tasks and its shares) stays as it was. So either route
  succeeds only for the owner. (An update whose title fails validation is answered
  400 first, again without any change.)
\<close>

theorem taskList_owner_only:
  assumes "taskList_findUnique d L = Some l" and "ownerId l \<noteq> U"
  shows "delete_taskList d L U =
           (\<lparr>status_code = 403,
             json_body = Error ''Only the owner can delete the task list''\<rparr>, d)
       \<and> put_taskList d L U t =
           (if validate_taskList t = []
            then \<lparr>status_code = 403,
                  json_body = Error ''Only the owner can update the task list''\<rparr>
            else \<lparr>status_code = 400, json_body = Errors (validate_taskList t)\<rparr>, d)"
  using assms by (simp add: delete_taskList_def put_taskList_def)

theorem taskList_owner_only_witness:
  "taskList_findUnique demo_db ''l1''
     = Some \<lparr>list_id = ''l1'', list_title = ''Groceries'', ownerId = ''u1''\<rparr>
   \<and> permission (getUserPermission demo_db ''l1'' ''u3'') = Some ''edit''
   \<and> delete_taskList demo_db ''l1'' ''u3''
       = (\<lparr>status_code = 403, json_body = Error ''Only the owner can delete the task list''\<rparr>,
          demo_db)
   \<and> put_taskList demo_db ''l1'' ''u3'' (Some ''Shopping'')
       = (\<lparr>status_code = 403, json_body = Error ''Only the owner can update the task list''\<rparr>,
          demo_db)"
proof -
  have l: "taskList_findUnique demo_db ''l1''
             = Some \<lparr>list_id = ''l1'', list_title = ''Groceries'', ownerId = ''u1''\<rparr>"
    by (simp add: taskList_findUnique_def demo_db_def)
  have p: "permission (getUserPermission demo_db ''l1'' ''u3'') = Some ''edit''"
    by (simp add: getUserPermission_def taskList_findUnique_def demo_db_def)
  have o: "ownerId \<lparr>list_id = ''l1'', list_title = ''Groceries'', ownerId = ''u1''\<rparr> \<noteq> ''u3''"
    by simp
  from taskList_owner_only[OF l o, of "Some ''Shopping''"] l p demo_bodies_valid
  show ?thesis by simp
qed

section \<open>A task or share that belongs to another list\<close>

text \<open>
  Claim C6. When the task named in a task update, status change or delete exists but
  belongs to another list than the one in the request, the route never changes the
  store, and it answers InvalidReference (400, the task does not belong to this task
  list) as soon as the request is past the checks that the routes make first: the
  validation of the body, and the access check on the list of the request (access
  with a permission other than view). A request stopped by one of those gets that
  check's answer instead: 400 with the validation errors, or 403 Forbidden.
  Likewise, when the share named in a permission update or a revocation exists but
  belongs to another list than the one in the request, the route never changes the
  store, and it answers 400, the share does not belong to this task list, when the
  permission is valid and the caller owns the list of the request; before that, 400
  with the validation errors, 404 when the list of the request is not stored, and 403
  when the caller is not its owner.
\<close>

theorem wrong_parent_rejected:
  "(task_findUnique d T = Some t \<and> taskListId t \<noteq> L \<longrightarrow>
      put_task d L T U b =
        (if validate_put_task b \<noteq> []
         then \<lparr>status_code = 400, json_body = Errors (validate_put_task b)\<rparr>
         else if \<not> hasAccess (getUserPermission d L U) then no_access_response
         else if permission (getUserPermission d L U) = Some ''view''
         then \<lparr>status_code = 403, json_body = Error ''You need edit permission to update tasks''\<rparr>
         else task_wrong_list, d)
      \<and> patch_task_status d L T U st =
        (if validate_patch_status st \<noteq> []
         then \<lparr>status_code = 400, json_body = Errors (validate_patch_status st)\<rparr>
         else if \<not> hasAccess (getUserPermission d L U) then no_access_response
         else if permission (getUserPermission d L U) = Some ''view''
         then \<lparr>status_code = 403,
               json_body = Error ''You need edit permission to update task status''\<rparr>
         else task_wrong_list, d)
      \<and> delete_task d L T U =
        (if \<not> hasAccess (getUserPermission d L U) then no_access_response
         else if permission (getUserPermission d L U) = Some ''view''
         then \<lparr>status_code = 403, json_body = Error ''You need edit permission to delete tasks''\<rparr>
         else task_wrong_list, d))
   \<and> (share_findUnique d S = Some s \<and> share_taskListId s \<noteq> L \<longrightarrow>
      put_share d L S U p =
        (if check_permission p \<noteq> []
         then \<lparr>status_code = 400, json_body = Errors (check_permission p)\<rparr>
         else (case taskList_findUnique d L of
                 None \<Rightarrow> list_not_found
               | Some l \<Rightarrow>
                   if ownerId l \<noteq> U
                   then \<lparr>status_code = 403,
                         json_body = Error ''Only the owner can update permissions''\<rparr>
                   else share_wrong_list), d)
      \<and> delete_share d L S U =
        (case taskList_findUnique d L of
           None \<Rightarrow> list_not_found
         | Some l \<Rightarrow>
             if ownerId l \<noteq> U
             then \<lparr>status_code = 403, json_body = Error ''Only the owner can remove access''\<rparr>
             else share_wrong_list, d))
   \<and> task_wrong_list
        = \<lparr>status_code = 400, json_body = Error ''Task does not belong to this task list''\<rparr>
   \<and> share_wrong_list
        = \<lparr>status_code = 400, json_body = Error ''Share does not belong to this task list''\<rparr>
   \<and> no_access_response
        = \<lparr>status_code = 403, json_body = Error ''You do not have access to this task list''\<rparr>
   \<and> list_not_found = \<lparr>status_code = 404, json_body = Error ''Task list not found''\<rparr>"
  by (simp add: put_task_def patch_task_status_def delete_task_def put_share_def delete_share_def
        Let_def task_wrong_list_def share_wrong_list_def no_access_response_def
        list_not_found_def split: option.splits)

theorem wrong_parent_rejected_witness:
  "map_option taskListId (task_findUnique demo_db ''t2'') = Some ''l2''
   \<and> permission (getUserPermission demo_db ''l1'' ''u3'') = Some ''edit''
   \<and> put_task demo_db ''l1'' ''t2'' ''u3''
        \<lparr>title = None, description = None, status = Some ''completed''\<rparr>
       = (task_wrong_list, demo_db)
   \<and> patch_task_status demo_db ''l1'' ''t2'' ''u3'' (Some ''completed'')
       = (task_wrong_list, demo_db)
   \<and> delete_task demo_db ''l1'' ''t2'' ''u3'' = (task_wrong_list, demo_db)
   \<and> permission (getUserPermission demo_db ''l1'' ''u2'') = Some ''view''
   \<and> delete_task demo_db ''l1'' ''t2'' ''u2''
       = (\<lparr>status_code = 403, json_body = Error ''You need edit permission to delete tasks''\<rparr>,
          demo_db)
   \<and> map_option share_taskListId (share_findUnique demo_db ''s1'') = Some ''l1''
   \<and> map_option ownerId (taskList_findUnique demo_db ''l2'') = Some ''u2''
   \<and> put_share demo_db ''l2'' ''s1'' ''u2'' (Some ''edit'') = (share_wrong_list, demo_db)
   \<and> delete_share demo_db ''l2'' ''s1'' ''u2'' = (share_wrong_list, demo_db)
   \<and> delete_share demo_db ''l2'' ''s1'' ''u3''
       = (\<lparr>status_code = 403, json_body = Error ''Only the owner can remove access''\<rparr>, demo_db)"
proof -
  let ?t = "\<lparr>task_id = ''t2'', task_title = ''Report'', task_description = Some ''Q3'',
             task_status = ''in_progress'', taskListId = ''l2''\<rparr>"
  let ?s = "\<lparr>share_id = ''s1'', share_taskListId = ''l1'', share_userId = ''u2'',
             share_permission = ''view''\<rparr>"
  let ?l = "\<lparr>list_id = ''l2'', list_title = ''Work'', ownerId = ''u2''\<rparr>"
  let ?b = "\<lparr>title = None, description = None, status = Some ''completed''\<rparr>"
  have t: "task_findUnique demo_db ''t2'' = Some ?t"
    by (simp add: task_findUnique_def demo_db_def)
  have s: "share_findUnique demo_db ''s1'' = Some ?s"
    by (simp add: share_findUnique_def demo_db_def)
  have l: "taskList_findUnique demo_db ''l2'' = Some ?l"
    by (simp add: taskList_findUnique_def demo_db_def)
  have a3: "getUserPermission demo_db ''l1'' ''u3''
             = \<lparr>hasAccess = True, permission = Some ''edit'',
                taskList_row = Some \<lparr>list_id = ''l1'', list_title = ''Groceries'',
                                     ownerId = ''u1''\<rparr>,
                isOwner = Some False\<rparr>"
    by (simp add: getUserPermission_def taskList_findUnique_def demo_db_def)
  have a2: "getUserPermission demo_db ''l1'' ''u2''
             = \<lparr>hasAccess = True, permission = Some ''view'',
                taskList_row = Some \<lparr>list_id = ''l1'', list_title = ''Groceries'',
                                     ownerId = ''u1''\<rparr>,
                isOwner = Some False\<rparr>"
    by (simp add: getUserPermission_def taskList_findUnique_def demo_db_def)
  have c: "check_permission (Some ''edit'') = []"
    by (simp add: check_permission_def permissions_def or_empty_def)
  note W = wrong_parent_rejected[of demo_db "''t2''" ?t _ _ ?b "Some ''completed''" "''s1''" ?s
             "Some ''edit''"]
  from W[of "''l1''" "''u3''"] t a3 demo_bodies_valid
  have e: "put_task demo_db ''l1'' ''t2'' ''u3'' ?b = (task_wrong_list, demo_db)"
          "patch_task_status demo_db ''l1'' ''t2'' ''u3'' (Some ''completed'')
             = (task_wrong_list, demo_db)"
          "delete_task demo_db ''l1'' ''t2'' ''u3'' = (task_wrong_list, demo_db)"
    by simp_all
  from W[of "''l1''" "''u2''"] t a2
  have v: "delete_task demo_db ''l1'' ''t2'' ''u2''
             = (\<lparr>status_code = 403,
                 json_body = Error ''You need edit permission to delete tasks''\<rparr>, demo_db)"
    by simp
  from W[of "''l2''" "''u2''"] s l c
  have o: "put_share demo_db ''l2'' ''s1'' ''u2'' (Some ''edit'') = (share_wrong_list, demo_db)"
          "delete_share demo_db ''l2'' ''s1'' ''u2'' = (share_wrong_list, demo_db)"
    by simp_all
  from W[of "''l2''" "''u3''"] s l
  have n: "delete_share demo_db ''l2'' ''s1'' ''u3''
             = (\<lparr>status_code = 403, json_body = Error ''Only the owner can remove access''\<rparr>,
                demo_db)"
    by simp
  from t s l a3 a2 e v o n show ?thesis by simp
qed

section \<open>Partial update of a task\<close>

lemma task_findUnique_SomeD:
  "task_findUnique d T = Some t \<Longrightarrow> task_id t = T \<and> t \<in> set (tasks d)"
  by (auto simp: task_findUnique_def find_Some_iff)

text \<open>The only way to a 200 from PUT: the task was found in the list of the request.\<close>

lemma put_task_200:
  assumes "put_task d L T U b = (r, d')" and "status_code r = 200"
  shows "\<exists>t0. task_findUnique d T = Some t0 \<and> taskListId t0 = L
           \<and> r = \<lparr>status_code = 200,
                   json_body = MessageTask ''Task updated successfully''
                                 (apply_updateData (sanitize_put_task b) t0)\<rparr>
           \<and> d' = d\<lparr>tasks := map (\<lambda>t. if task_id t = T
                                        then apply_updateData (sanitize_put_task b) t else t)
                                  (tasks d)\<rparr>"
  using assms
  by (auto simp: put_task_def Let_def task_update_def no_access_response_def task_not_found_def
        task_wrong_list_def split: if_splits option.splits)

lemma apply_updateData_keys [simp]:
  "task_id (apply_updateData u t) = task_id t" "taskListId (apply_updateData u t) = taskListId t"
  by (simp_all add: apply_updateData_def)

lemma find_map_keyed:
  assumes "\<And>x. k (g x) = k x"
  shows "find (\<lambda>x. k x = i) (map (\<lambda>x. if k x = i then g x else x) xs)
           = map_option g (find (\<lambda>x. k x = i) xs)"
  using assms by (induction xs) auto

lemma filter_map_keyed:
  assumes "\<And>x. k (g x) = k x"
  shows "filter (\<lambda>x. k x \<noteq> i) (map (\<lambda>x. if k x = i then g x else x) xs)
           = filter (\<lambda>x. k x \<noteq> i) xs"
  using assms by (induction xs) auto

lemma map_field_keyed:
  "(\<And>x. f (g x) = f x) \<Longrightarrow> map f (map (\<lambda>x. if k x = i then g x else x) xs) = map f xs"
  by (induction xs) auto

text \<open>
  Claim C7. After a successful task update (PUT answered 200), a field among title,
  description and status that the body leaves out has its stored value in every task;
  the updated task, which is the one returned, has for each field the (trimmed) value
  of the body when the body has the field and its prior value otherwise; the other
  tasks, and the users, lists and shares, are as before. In particular a body with
  only a status leaves title and description as they were.
\<close>

theorem put_task_partial_update:
  assumes "put_task d L T U b = (r, d')" and "status_code r = 200"
  shows "(title b = None \<longrightarrow> map task_title (tasks d') = map task_title (tasks d))
       \<and> (description b = None \<longrightarrow>
            map task_description (tasks d') = map task_description (tasks d))
       \<and> (status b = None \<longrightarrow> map task_status (tasks d') = map task_status (tasks d))
       \<and> (\<exists>t0 t1. task_findUnique d T = Some t0 \<and> task_findUnique d' T = Some t1
             \<and> json_body r = MessageTask ''Task updated successfully'' t1
             \<and> task_title t1 = (case title b of None \<Rightarrow> task_title t0 | Some x \<Rightarrow> trim x)
             \<and> task_description t1
                 = (case description b of None \<Rightarrow> task_description t0 | Some x \<Rightarrow> Some (trim x))
             \<and> task_status t1 = (case status b of None \<Rightarrow> task_status t0 | Some x \<Rightarrow> x)
             \<and> task_id t1 = task_id t0 \<and> taskListId t1 = taskListId t0)
       \<and> filter (\<lambda>t. task_id t \<noteq> T) (tasks d') = filter (\<lambda>t. task_id t \<noteq> T) (tasks d)
       \<and> users d' = users d \<and> taskLists d' = taskLists d
       \<and> taskListShares d' = taskListShares d"
proof -
  let ?g = "apply_updateData (sanitize_put_task b)"
  from put_task_200[OF assms] obtain t0 where
    t0: "task_findUnique d T = Some t0" and
    r: "r = \<lparr>status_code = 200, json_body = MessageTask ''Task updated successfully'' (?g t0)\<rparr>" and
    d': "d' = d\<lparr>tasks := map (\<lambda>t. if task_id t = T then ?g t else t) (tasks d)\<rparr>"
    by blast
  have f: "task_findUnique d' T = Some (?g t0)"
    using t0 by (simp add: d' task_findUnique_def find_map_keyed)
  have ti: "title b = None \<longrightarrow> map task_title (tasks d') = map task_title (tasks d)"
    by (simp add: d' map_field_keyed apply_updateData_def sanitize_put_task_def del: map_map)
  have de: "description b = None \<longrightarrow>
              map task_description (tasks d') = map task_description (tasks d)"
    by (simp add: d' map_field_keyed apply_updateData_def sanitize_put_task_def del: map_map)
  have st: "status b = None \<longrightarrow> map task_status (tasks d') = map task_status (tasks d)"
    by (simp add: d' map_field_keyed apply_updateData_def sanitize_put_task_def del: map_map)
  have ot: "filter (\<lambda>t. task_id t \<noteq> T) (tasks d') = filter (\<lambda>t. task_id t \<noteq> T) (tasks d)"
    by (simp add: d' filter_map_keyed)
  have fields:
    "task_title (?g t0) = (case title b of None \<Rightarrow> task_title t0 | Some x \<Rightarrow> trim x)"
    "task_description (?g t0)
       = (case description b of None \<Rightarrow> task_description t0 | Some x \<Rightarrow> Some (trim x))"
    "task_status (?g t0) = (case status b of None \<Rightarrow> task_status t0 | Some x \<Rightarrow> x)"
    by (simp_all add: apply_updateData_def sanitize_put_task_def split: option.splits)
  have ex: "\<exists>t0 t1. task_findUnique d T = Some t0 \<and> task_findUnique d' T = Some t1
             \<and> json_body r = MessageTask ''Task updated successfully'' t1
             \<and> task_title t1 = (case title b of None \<Rightarrow> task_title t0 | Some x \<Rightarrow> trim x)
             \<and> task_description t1
                 = (case description b of None \<Rightarrow> task_description t0 | Some x \<Rightarrow> Some (trim x))
             \<and> task_status t1 = (case status b of None \<Rightarrow> task_status t0 | Some x \<Rightarrow> x)
             \<and> task_id t1 = task_id t0 \<and> taskListId t1 = taskListId t0"
    using t0 f fields by (intro exI[of _ t0] exI[of _ "?g t0"]) (simp add: r)
  have rest: "users d' = users d \<and> taskLists d' = taskLists d
                \<and> taskListShares d' = taskListShares d"
    by (simp add: d')
  from ti de st ex ot rest show ?thesis by blast
qed

theorem put_task_partial_update_witness:
  "status_code (fst (put_task demo_db ''l1'' ''t1'' ''u3''
                       \<lparr>title = None, description = None, status = Some ''completed''\<rparr>)) = 200
   \<and> map task_title (tasks (snd (put_task demo_db ''l1'' ''t1'' ''u3''
                       \<lparr>title = None, description = None, status = Some ''completed''\<rparr>)))
       = [''Milk'', ''Report'']
   \<and> map task_description (tasks (snd (put_task demo_db ''l1'' ''t1'' ''u3''
                       \<lparr>title = None, description = None, status = Some ''completed''\<rparr>)))
       = [None, Some ''Q3'']
   \<and> map task_status (tasks (snd (put_task demo_db ''l1'' ''t1'' ''u3''
                       \<lparr>title = None, description = None, status = Some ''completed''\<rparr>)))
       = [''completed'', ''in_progress'']"
proof -
  let ?b = "\<lparr>title = None, description = None, status = Some ''completed''\<rparr>"
  let ?p = "put_task demo_db ''l1'' ''t1'' ''u3'' ?b"
  note ev = put_task_def validate_put_task_def check_title_def check_description_def
    check_status_optional_def statuses_def sanitize_put_task_def getUserPermission_def
    taskList_findUnique_def task_findUnique_def task_update_def apply_updateData_def
    demo_db_def Let_def
  have h: "status_code (fst ?p) = 200"
    by (simp add: ev)
  have s: "map task_status (tasks (snd ?p)) = [''completed'', ''in_progress'']"
    by (simp add: ev)
  have o: "map task_title (tasks demo_db) = [''Milk'', ''Report'']"
          "map task_description (tasks demo_db) = [None, Some ''Q3'']"
    by (simp_all add: demo_db_def)
  from put_task_partial_update[OF prod.collapse[symmetric] h] h s o
  show ?thesis by simp
qed

text \<open>
  Claim C10. When the caller's permission on the list is owner or edit, the task
  exists and belongs to the list of the request, and the body has none of title,
  description and status, the update succeeds: it answers 200 with the task as it was
  stored, and the store, so in particular the task's title, description and status, is
  unchanged.
\<close>

theorem put_task_empty_body:
  assumes "permission (getUserPermission d L U) = Some ''owner''
           \<or> permission (getUserPermission d L U) = Some ''edit''"
      and "task_findUnique d T = Some t" and "taskListId t = L"
  shows "put_task d L T U \<lparr>title = None, description = None, status = None\<rparr>
           = (\<lparr>status_code = 200, json_body = MessageTask ''Task updated successfully'' t\<rparr>, d)"
proof -
  from assms(1) have a: "hasAccess (getUserPermission d L U)"
    "permission (getUserPermission d L U) \<noteq> Some ''view''"
    by (auto dest: permission_Some_hasAccess)
  have i: "\<And>x. apply_updateData \<lparr>title = None, description = None, status = None\<rparr> x = x"
    by (simp add: apply_updateData_def)
  have m: "map (\<lambda>x. if task_id x = T
                     then apply_updateData \<lparr>title = None, description = None, status = None\<rparr> x
                     else x) (tasks d) = tasks d"
    by (simp add: i cong: if_cong)
  show ?thesis
    using a assms(2,3)
    by (simp add: put_task_def validate_put_task_def check_description_def
          check_status_optional_def sanitize_put_task_def Let_def task_update_def i m)
qed

theorem put_task_empty_body_witness:
  "permission (getUserPermission demo_db ''l1'' ''u3'') = Some ''edit''
   \<and> task_findUnique demo_db ''t1''
       = Some \<lparr>task_id = ''t1'', task_title = ''Milk'', task_description = None,
               task_status = ''pending'', taskListId = ''l1''\<rparr>
   \<and> put_task demo_db ''l1'' ''t1'' ''u3'' \<lparr>title = None, description = None, status = None\<rparr>
       = (\<lparr>status_code = 200,
            json_body = MessageTask ''Task updated successfully''
                          \<lparr>task_id = ''t1'', task_title = ''Milk'', task_description = None,
                            task_status = ''pending'', taskListId = ''l1''\<rparr>\<rparr>, demo_db)"
proof -
  let ?t = "\<lparr>task_id = ''t1'', task_title = ''Milk'', task_description = None,
             task_status = ''pending'', taskListId = ''l1''\<rparr>"
  have p: "permission (getUserPermission demo_db ''l1'' ''u3'') = Some ''edit''"
    by (simp add: getUserPermission_def taskList_findUnique_def demo_db_def)
  have t: "task_findUnique demo_db ''t1'' = Some ?t"
    by (simp add: task_findUnique_def demo_db_def)
  have l: "taskListId ?t = ''l1''"
    by simp
  from put_task_empty_body[OF disjI2[OF p] t l] p t
  show ?thesis by simp
qed

section \<open>What every run maintains\<close>

text \<open>
  Each write of the store keeps \<open>store_ok\<close>; so does each route, hence each request
  and each sequence of requests from the empty store.
\<close>

lemma store_ok_users [simp]: "store_ok (d\<lparr>users := us\<rparr>) = store_ok d"
  by (simp add: store_ok_def lists_distinct_def shares_reference_lists_def no_self_share_def
        shares_unique_def permissions_valid_def)

lemma store_ok_tasks [simp]: "store_ok (d\<lparr>tasks := ts\<rparr>) = store_ok d"
  by (simp add: store_ok_def lists_distinct_def shares_reference_lists_def no_self_share_def
        shares_unique_def permissions_valid_def)

lemma user_create_ok: "user_create d u = Inr d' \<Longrightarrow> store_ok d \<Longrightarrow> store_ok d'"
  by (auto simp: user_create_def split: if_splits)

lemma task_create_ok: "task_create d t = Inr d' \<Longrightarrow> store_ok d \<Longrightarrow> store_ok d'"
  by (auto simp: task_create_def split: if_splits)

lemma task_update_ok: "task_update d i f = Inr (t, d') \<Longrightarrow> store_ok d \<Longrightarrow> store_ok d'"
  by (auto simp: task_update_def split: option.splits)

lemma task_delete_ok: "task_delete d i = Inr d' \<Longrightarrow> store_ok d \<Longrightarrow> store_ok d'"
  by (auto simp: task_delete_def split: if_splits)

lemma taskList_create_ok:
  assumes "taskList_create d l = Inr d'" and "store_ok d"
  shows "store_ok d'"
proof -
  from assms(1) have fresh: "list_id l \<notin> list_id ` set (taskLists d)"
    and d': "d' = d\<lparr>taskLists := taskLists d @ [l]\<rparr>"
    by (auto simp: taskList_create_def split: if_splits)
  from assms(2) fresh show ?thesis
    unfolding d' store_ok_def lists_distinct_def shares_reference_lists_def no_self_share_def
      shares_unique_def permissions_valid_def
    by (auto simp: list_all_iff)
qed

lemma taskList_update_ok:
  assumes "taskList_update d i t = Inr (l, d')" and "store_ok d"
  shows "store_ok d'"
proof -
  let ?g = "\<lambda>l. if list_id l = i then l\<lparr>list_title := t\<rparr> else l"
  from assms(1) have d': "d' = d\<lparr>taskLists := map ?g (taskLists d)\<rparr>"
    by (auto simp: taskList_update_def split: option.splits)
  have ids: "map list_id (map ?g (taskLists d)) = map list_id (taskLists d)"
    by (induction "taskLists d") auto
  have own: "\<exists>l0 \<in> set (taskLists d). list_id l0 = list_id l' \<and> ownerId l0 = ownerId l'"
    if "l' \<in> set (map ?g (taskLists d))" for l'
    using that by auto
  have n: "no_self_share d'"
    unfolding no_self_share_def list_all_iff
  proof (intro ballI impI)
    fix s l'
    assume s: "s \<in> set (taskListShares d')" and l': "l' \<in> set (taskLists d')"
      and e: "list_id l' = share_taskListId s"
    from l' own obtain l0 where "l0 \<in> set (taskLists d)" "list_id l0 = list_id l'"
      "ownerId l0 = ownerId l'" unfolding d' by auto
    moreover from s have "s \<in> set (taskListShares d)" by (simp add: d')
    ultimately show "ownerId l' \<noteq> share_userId s"
      using assms(2) e by (auto simp: store_ok_def no_self_share_def list_all_iff)
  qed
  have r: "lists_distinct d' \<and> shares_reference_lists d' \<and> shares_unique d' \<and> permissions_valid d'"
    using assms(2) ids
    by (simp add: d' store_ok_def lists_distinct_def shares_reference_lists_def
          shares_unique_def permissions_valid_def del: map_map)
  from n r show ?thesis by (simp add: store_ok_def)
qed

lemma taskList_delete_ok:
  assumes "taskList_delete d i = Inr d'" and "store_ok d"
  shows "store_ok d'"
proof -
  from assms(1) have d': "d' = d\<lparr>taskLists := filter (\<lambda>l. list_id l \<noteq> i) (taskLists d),
                  tasks := filter (\<lambda>t. taskListId t \<noteq> i) (tasks d),
                  taskListShares := filter (\<lambda>s. share_taskListId s \<noteq> i) (taskListShares d)\<rparr>"
    by (auto simp: taskList_delete_def split: if_splits)
  from assms(2) show ?thesis
    unfolding d' store_ok_def lists_distinct_def shares_reference_lists_def no_self_share_def
      shares_unique_def permissions_valid_def
    by (auto simp: list_all_iff distinct_map_filter)
qed

lemma share_create_ok:
  assumes "share_create d s = Inr d'" and "store_ok d"
      and "share_permission s \<in> set permissions"
      and "\<forall>l \<in> set (taskLists d). list_id l = share_taskListId s \<longrightarrow> ownerId l \<noteq> share_userId s"
  shows "store_ok d'"
proof -
  from assms(1) have d': "d' = d\<lparr>taskListShares := taskListShares d @ [s]\<rparr>"
    and u: "(share_taskListId s, share_userId s)
              \<notin> set (map (\<lambda>x. (share_taskListId x, share_userId x)) (taskListShares d))"
    and r: "share_taskListId s \<in> set (map list_id (taskLists d))"
    by (auto simp: share_create_def split: if_splits)
  from assms(2-4) u r show ?thesis
    unfolding d' store_ok_def lists_distinct_def shares_reference_lists_def no_self_share_def
      shares_unique_def permissions_valid_def
    by (auto simp: list_all_iff permissions_def)
qed

lemma share_update_ok:
  assumes "share_update d i p = Inr (s, d')" and "store_ok d" and "p \<in> set permissions"
  shows "store_ok d'"
proof -
  let ?g = "\<lambda>s. if share_id s = i then s\<lparr>share_permission := p\<rparr> else s"
  from assms(1) have d': "d' = d\<lparr>taskListShares := map ?g (taskListShares d)\<rparr>"
    by (auto simp: share_update_def split: option.splits)
  have keys: "map (\<lambda>s. (share_taskListId s, share_userId s)) (map ?g (taskListShares d))
                = map (\<lambda>s. (share_taskListId s, share_userId s)) (taskListShares d)"
    by (induction "taskListShares d") auto
  have pre: "\<exists>s0 \<in> set (taskListShares d).
               share_taskListId s' = share_taskListId s0 \<and> share_userId s' = share_userId s0
               \<and> (share_permission s' = share_permission s0 \<or> share_permission s' = p)"
    if "s' \<in> set (map ?g (taskListShares d))" for s'
    using that by auto
  have a: "shares_unique d'"
    using assms(2) keys by (simp add: d' store_ok_def shares_unique_def del: map_map)
  have b: "lists_distinct d'"
    using assms(2) by (simp add: d' store_ok_def lists_distinct_def)
  have c: "shares_reference_lists d' \<and> no_self_share d' \<and> permissions_valid d'"
    unfolding shares_reference_lists_def no_self_share_def permissions_valid_def list_all_iff
  proof (intro conjI ballI impI)
    fix s' assume "s' \<in> set (taskListShares d')"
    with pre obtain s0 where s0: "s0 \<in> set (taskListShares d)"
      "share_taskListId s' = share_taskListId s0" "share_userId s' = share_userId s0"
      "share_permission s' = share_permission s0 \<or> share_permission s' = p"
      unfolding d' by auto
    from s0 assms(2) show "share_taskListId s' \<in> set (map list_id (taskLists d'))"
      by (auto simp: d' store_ok_def shares_reference_lists_def list_all_iff)
    from s0 assms(2,3) show "share_permission s' \<in> set [''view'', ''edit'']"
      by (auto simp: d' store_ok_def permissions_valid_def list_all_iff permissions_def)
    fix l assume "l \<in> set (taskLists d')" "list_id l = share_taskListId s'"
    with s0 assms(2) show "ownerId l \<noteq> share_userId s'"
      by (auto simp: d' store_ok_def no_self_share_def list_all_iff)
  qed
  from a b c show ?thesis by (simp add: store_ok_def)
qed

lemma share_delete_ok:
  assumes "share_delete d i = Inr d'" and "store_ok d"
  shows "store_ok d'"
proof -
  from assms(1) have d': "d' = d\<lparr>taskListShares := filter (\<lambda>s. share_id s \<noteq> i) (taskListShares d)\<rparr>"
    by (auto simp: share_delete_def split: if_splits)
  from assms(2) show ?thesis
    unfolding d' store_ok_def lists_distinct_def shares_reference_lists_def no_self_share_def
      shares_unique_def permissions_valid_def
    by (auto simp: list_all_iff distinct_map_filter)
qed


lemma register_ok: "store_ok d \<Longrightarrow> store_ok (snd (register e d n h b))"
  by (auto simp: register_def Let_def split: option.splits sum.splits dest: user_create_ok)

lemma login_ok: "store_ok d \<Longrightarrow> store_ok (snd (login e d b))"
  by (auto simp: login_def Let_def split: option.splits)

lemma get_tasks_ok: "store_ok d \<Longrightarrow> store_ok (snd (get_tasks d L U))"
  by (simp add: get_tasks_def Let_def)

lemma post_task_ok: "store_ok d \<Longrightarrow> store_ok (snd (post_task d n L U b))"
  by (auto simp: post_task_def Let_def split: sum.splits dest: task_create_ok)

lemma put_task_ok: "store_ok d \<Longrightarrow> store_ok (snd (put_task d L T U b))"
  by (auto simp: put_task_def Let_def split: option.splits sum.splits dest: task_update_ok)

lemma patch_task_status_ok: "store_ok d \<Longrightarrow> store_ok (snd (patch_task_status d L T U st))"
  by (auto simp: patch_task_status_def Let_def split: option.splits sum.splits
           dest: task_update_ok)

lemma delete_task_ok: "store_ok d \<Longrightarrow> store_ok (snd (delete_task d L T U))"
  by (auto simp: delete_task_def Let_def split: option.splits sum.splits dest: task_delete_ok)

lemma post_taskList_ok: "store_ok d \<Longrightarrow> store_ok (snd (post_taskList d n U t))"
  by (auto simp: post_taskList_def Let_def split: sum.splits dest: taskList_create_ok)

lemma put_taskList_ok: "store_ok d \<Longrightarrow> store_ok (snd (put_taskList d L U t))"
  by (auto simp: put_taskList_def split: option.splits sum.splits dest: taskList_update_ok)

lemma delete_taskList_ok: "store_ok d \<Longrightarrow> store_ok (snd (delete_taskList d L U))"
  by (auto simp: delete_taskList_def split: option.splits sum.splits dest: taskList_delete_ok)

lemma check_permission_valid: "check_permission p = [] \<Longrightarrow> or_empty p \<in> set permissions"
  by (simp add: check_permission_def split: if_splits)

lemma taskList_findUnique_only:
  assumes "lists_distinct d" and "taskList_findUnique d L = Some l"
      and "l' \<in> set (taskLists d)" and "list_id l' = L"
  shows "l' = l"
proof -
  from assms(1) have "inj_on list_id (set (taskLists d))"
    by (simp add: lists_distinct_def distinct_map)
  with taskList_findUnique_SomeD[OF assms(2)] assms(3,4) show ?thesis
    by (auto dest: inj_onD)
qed

lemma post_share_changed:
  assumes "post_share e d n L U b = (r, d')" and "d' \<noteq> d"
  shows "\<exists>l uid. validate_post_share e b = [] \<and> taskList_findUnique d L = Some l \<and> ownerId l = U
           \<and> uid \<noteq> U
           \<and> share_create d \<lparr>share_id = n, share_taskListId = L, share_userId = uid,
                share_permission = or_empty (share_body_permission b)\<rparr> = Inr d'"
  using assms
  by (auto simp: post_share_def Let_def split: if_splits option.splits sum.splits)

lemma post_share_ok:
  assumes "store_ok d"
  shows "store_ok (snd (post_share e d n L U b))"
proof (cases "post_share e d n L U b")
  case (Pair r d')
  show ?thesis
  proof (cases "d' = d")
    case True
    with Pair assms show ?thesis by simp
  next
    case False
    from post_share_changed[OF Pair False] obtain l uid where v: "validate_post_share e b = []"
      and l: "taskList_findUnique d L = Some l" and o: "ownerId l = U"
      and t: "uid \<noteq> U"
      and c: "share_create d \<lparr>share_id = n, share_taskListId = L, share_userId = uid,
                share_permission = or_empty (share_body_permission b)\<rparr> = Inr d'"
      by blast
    from v have p: "or_empty (share_body_permission b) \<in> set permissions"
      by (simp add: validate_post_share_def check_permission_valid)
    from assms have "lists_distinct d" by (simp add: store_ok_def)
    from taskList_findUnique_only[OF this l] o t
    have "\<forall>l' \<in> set (taskLists d). list_id l' = L \<longrightarrow> ownerId l' \<noteq> uid"
      by auto
    with share_create_ok[OF c assms] p have "store_ok d'" by simp
    with Pair show ?thesis by simp
  qed
qed

lemma put_share_ok: "store_ok d \<Longrightarrow> store_ok (snd (put_share d L S U p))"
  by (auto simp: put_share_def split: option.splits sum.splits if_splits
           dest: share_update_ok check_permission_valid)

lemma delete_share_ok: "store_ok d \<Longrightarrow> store_ok (snd (delete_share d L S U))"
  by (auto simp: delete_share_def split: option.splits sum.splits dest: share_delete_ok)

lemma authenticated_ok:
  "store_ok d \<Longrightarrow> (\<And>u. store_ok (snd (route u))) \<Longrightarrow> store_ok (snd (authenticated e d h route))"
  by (simp add: authenticated_def split: sum.splits)

lemma handle_ok: "store_ok d \<Longrightarrow> store_ok (snd (handle e d c))"
  by (cases c)
     (simp_all add: register_ok login_ok authenticated_ok get_tasks_ok post_task_ok put_task_ok
        patch_task_status_ok delete_task_ok post_taskList_ok put_taskList_ok delete_taskList_ok
        post_share_ok put_share_ok delete_share_ok)

lemma run_ok: "store_ok d \<Longrightarrow> store_ok (run e d cs)"
  by (induction cs arbitrary: d) (simp_all add: handle_ok)

lemma empty_db_ok: "store_ok empty_db"
  by (simp add: store_ok_def empty_db_def lists_distinct_def shares_reference_lists_def
        no_self_share_def shares_unique_def permissions_valid_def)

lemma run_store_ok: "store_ok (run e empty_db cs)"
  by (rule run_ok[OF empty_db_ok])


section \<open>Granting a share twice\<close>

text \<open>
  Claim C1. When the owner of a list grants a share to a user who already holds a
  share of that list, the request fails with the conflict answer (status 400, the
  task list is already shared with this user) and the store, so in particular the
  existing share and its permission, is unchanged. The request is one that passes
  validation, and the store is one in which no owner holds a share of their own list
  (true of every store the server reaches, see \<open>run_store_ok\<close>).
\<close>

theorem post_share_existing:
  assumes "validate_post_share e b = []"
      and "taskList_findUnique d L = Some l" and "ownerId l = U"
      and "user_findUnique_email d (normalizeEmail e (or_empty (email b))) = Some t"
      and "share_findUnique_pair d L (user_id t) = Some s"
      and "no_self_share d"
  shows "post_share e d n L U b =
           (\<lparr>status_code = 400,
             json_body = Error ''Task list is already shared with this user''\<rparr>, d)"
proof -
  from share_findUnique_pair_SomeD[OF assms(5)] taskList_findUnique_SomeD[OF assms(2)] assms(6)
  have "ownerId l \<noteq> user_id t"
    by (auto simp: no_self_share_def list_all_iff)
  with assms show ?thesis
    by (simp add: post_share_def Let_def)
qed

theorem post_share_existing_witness:
  "validate_post_share demo_env \<lparr>email = Some ''b@x.com'', share_body_permission = Some ''edit''\<rparr> = []
   \<and> map_option ownerId (taskList_findUnique demo_db ''l1'') = Some ''u1''
   \<and> map_option share_permission (share_findUnique_pair demo_db ''l1'' ''u2'') = Some ''view''
   \<and> no_self_share demo_db
   \<and> post_share demo_env demo_db ''s3'' ''l1'' ''u1''
        \<lparr>email = Some ''b@x.com'', share_body_permission = Some ''edit''\<rparr>
       = (\<lparr>status_code = 400,
            json_body = Error ''Task list is already shared with this user''\<rparr>, demo_db)"
proof -
  let ?b = "\<lparr>email = Some ''b@x.com'', share_body_permission = Some ''edit''\<rparr>"
  let ?l = "\<lparr>list_id = ''l1'', list_title = ''Groceries'', ownerId = ''u1''\<rparr>"
  let ?t = "\<lparr>user_id = ''u2'', user_email = ''b@x.com'', user_password = ''h2''\<rparr>"
  let ?s = "\<lparr>share_id = ''s1'', share_taskListId = ''l1'', share_userId = ''u2'',
             share_permission = ''view''\<rparr>"
  have v: "validate_post_share demo_env ?b = []"
    by (simp add: validate_post_share_def check_email_def check_permission_def permissions_def
          or_empty_def demo_env_def)
  have l: "taskList_findUnique demo_db ''l1'' = Some ?l"
    by (simp add: taskList_findUnique_def demo_db_def)
  have o: "ownerId ?l = ''u1''"
    by simp
  have t: "user_findUnique_email demo_db (normalizeEmail demo_env (or_empty (email ?b))) = Some ?t"
    by (simp add: user_findUnique_email_def demo_db_def demo_env_def or_empty_def)
  have s: "share_findUnique_pair demo_db ''l1'' ''u2'' = Some ?s"
    by (simp add: share_findUnique_pair_def demo_db_def)
  have s': "share_findUnique_pair demo_db ''l1'' (user_id ?t) = Some ?s"
    using s by simp
  have n: "no_self_share demo_db"
    by (simp add: no_self_share_def demo_db_def)
  from post_share_existing[OF v l o t s' n, of "''s3''"] v l s n
  show ?thesis by simp
qed

section \<open>Failed logins\<close>

text \<open>
  For passwords that are strings, a failed login does not tell whether the address is
  registered: an address no user has and a stored address with a password that does not
  match get the same response, 401 with the message that the email or password is
  invalid.
\<close>

lemma login_string_password_failures:
  assumes "validate_login e b1 = []" and "validate_login e b2 = []"
      and "user_findUnique_email d (normalizeEmail e (or_empty (auth_email b1))) = None"
      and "user_findUnique_email d (normalizeEmail e (or_empty (auth_email b2))) = Some u"
      and "auth_password b2 = Some (JString p)"
      and "\<not> comparePassword e p (user_password u)"
  shows "login e d b1 = login e d b2
       \<and> login e d b1
           = (\<lparr>status_code = 401, json_body = Error ''Invalid email or password''\<rparr>, d)"
  using assms by (simp add: login_def Let_def as_string_def)

text \<open>
  Claim C9 says that every failed login with a registered address and a wrong password
  is answered like one with an unregistered address: 401 and the same message. The code
  breaks this when the password of the body is not a string. The number 123 passes the
  validator (its text is not empty). For the address z@x.com, which no user has, the
  route answers 401 before it looks at the password; for the stored address a@x.com it
  hands the number to the comparison, which rejects, and the route answers 500, failed
  to login. The two responses differ, so they tell that a@x.com is registered.
\<close>

theorem login_reveals_registered_email:
  "validate_login demo_env \<lparr>auth_email = Some ''z@x.com'', auth_password = Some (JOther ''123'')\<rparr>
     = []
   \<and> validate_login demo_env \<lparr>auth_email = Some ''a@x.com'', auth_password = Some (JOther ''123'')\<rparr>
     = []
   \<and> user_findUnique_email demo_db ''z@x.com'' = None
   \<and> map_option user_id (user_findUnique_email demo_db ''a@x.com'') = Some ''u1''
   \<and> login demo_env demo_db
        \<lparr>auth_email = Some ''z@x.com'', auth_password = Some (JOther ''123'')\<rparr>
       = (\<lparr>status_code = 401, json_body = Error ''Invalid email or password''\<rparr>, demo_db)
   \<and> login demo_env demo_db
        \<lparr>auth_email = Some ''a@x.com'', auth_password = Some (JOther ''123'')\<rparr>
       = (\<lparr>status_code = 500, json_body = Error ''Failed to login''\<rparr>, demo_db)"
  by (simp add: login_def validate_login_def check_email_def or_empty_def toString_def
        as_string_def user_findUnique_email_def demo_env_def demo_db_def)

section \<open>No share for the owner\<close>

lemma demo_calls_reach: "run demo_env empty_db demo_calls = demo_reached"
  by (simp add: demo_calls_def demo_reached_def empty_db_def demo_env_def
        register_def validate_register_def check_email_def or_empty_def toString_def
        as_string_def
        user_findUnique_email_def user_create_def
        authenticated_def authenticate_def user_findUnique_id_def
        post_taskList_def validate_taskList_def check_title_def trim_def is_space_def
        taskList_create_def
        post_share_def validate_post_share_def check_permission_def permissions_def
        taskList_findUnique_def share_findUnique_pair_def share_create_def Let_def)

text \<open>
  Claim C8. In every store the server reaches from the empty one, no share is held by
  the owner of its list. And in such a store a grant whose e-mail address resolves to
  the owner of the list creates no share, whoever asks; asked by the owner with a valid
  body (the only caller for whom the address is resolved at all), it fails with the
  invalid-operation answer: 400, you cannot share a task list with yourself.
\<close>

theorem no_owner_share:
  "(\<forall>s \<in> set (taskListShares (run e empty_db cs)). \<forall>l \<in> set (taskLists (run e empty_db cs)).
       list_id l = share_taskListId s \<longrightarrow> ownerId l \<noteq> share_userId s)
   \<and> (\<forall>l t. taskList_findUnique (run e empty_db cs) L = Some l
          \<and> user_findUnique_email (run e empty_db cs) (normalizeEmail e (or_empty (email b)))
              = Some t
          \<and> user_id t = ownerId l
        \<longrightarrow> snd (post_share e (run e empty_db cs) n L U b) = run e empty_db cs
          \<and> (validate_post_share e b = [] \<and> U = ownerId l
               \<longrightarrow> fst (post_share e (run e empty_db cs) n L U b)
                     = \<lparr>status_code = 400,
                        json_body = Error ''You cannot share a task list with yourself''\<rparr>))"
proof -
  have "no_self_share (run e empty_db cs)"
    using run_store_ok[of e cs] by (simp add: store_ok_def)
  then have a: "\<forall>s \<in> set (taskListShares (run e empty_db cs)).
                 \<forall>l \<in> set (taskLists (run e empty_db cs)).
                   list_id l = share_taskListId s \<longrightarrow> ownerId l \<noteq> share_userId s"
    by (simp add: no_self_share_def list_all_iff)
  have b: "\<forall>l t. taskList_findUnique d L = Some l
          \<and> user_findUnique_email d (normalizeEmail e (or_empty (email b))) = Some t
          \<and> user_id t = ownerId l
        \<longrightarrow> snd (post_share e d n L U b) = d
          \<and> (validate_post_share e b = [] \<and> U = ownerId l
               \<longrightarrow> fst (post_share e d n L U b)
                     = \<lparr>status_code = 400,
                        json_body = Error ''You cannot share a task list with yourself''\<rparr>)" for d
    by (simp add: post_share_def Let_def)
  from a b show ?thesis by blast
qed


theorem no_owner_share_witness:
  "run demo_env empty_db demo_calls = demo_reached
   \<and> map_option ownerId (taskList_findUnique demo_reached ''l1'') = Some ''u1''
   \<and> map_option user_id (user_findUnique_email demo_reached ''a@x.com'') = Some ''u1''
   \<and> validate_post_share demo_env
        \<lparr>email = Some ''a@x.com'', share_body_permission = Some ''edit''\<rparr> = []
   \<and> post_share demo_env demo_reached ''s2'' ''l1'' ''u1''
        \<lparr>email = Some ''a@x.com'', share_body_permission = Some ''edit''\<rparr>
       = (\<lparr>status_code = 400,
            json_body = Error ''You cannot share a task list with yourself''\<rparr>, demo_reached)
   \<and> taskListShares demo_reached \<noteq> []
   \<and> no_self_share demo_reached"
proof -
  let ?b = "\<lparr>email = Some ''a@x.com'', share_body_permission = Some ''edit''\<rparr>"
  let ?l = "\<lparr>list_id = ''l1'', list_title = ''Groceries'', ownerId = ''u1''\<rparr>"
  let ?t = "\<lparr>user_id = ''u1'', user_email = ''a@x.com'', user_password = ''hsecret''\<rparr>"
  have l: "taskList_findUnique demo_reached ''l1'' = Some ?l"
    by (simp add: taskList_findUnique_def demo_reached_def)
  have t: "user_findUnique_email demo_reached ''a@x.com'' = Some ?t"
    by (simp add: user_findUnique_email_def demo_reached_def)
  have t': "user_findUnique_email demo_reached (normalizeEmail demo_env (or_empty (email ?b)))
              = Some ?t"
    using t by (simp add: demo_env_def or_empty_def)
  have v: "validate_post_share demo_env ?b = []"
    by (simp add: validate_post_share_def check_email_def check_permission_def permissions_def
          or_empty_def demo_env_def)
  have ne: "taskListShares demo_reached \<noteq> []"
    by (simp add: demo_reached_def)
  note T = no_owner_share[of demo_env demo_calls "''l1''" ?b "''s2''" "''u1''",
             unfolded demo_calls_reach]
  from T have n: "no_self_share demo_reached"
    by (simp add: no_self_share_def list_all_iff)
  from T l t' have s: "snd (post_share demo_env demo_reached ''s2'' ''l1'' ''u1'' ?b) = demo_reached"
    by simp
  from T l t' v
  have f: "fst (post_share demo_env demo_reached ''s2'' ''l1'' ''u1'' ?b)
             = \<lparr>status_code = 400,
                json_body = Error ''You cannot share a task list with yourself''\<rparr>"
    by simp
  from s f have p: "post_share demo_env demo_reached ''s2'' ''l1'' ''u1'' ?b
             = (\<lparr>status_code = 400,
                 json_body = Error ''You cannot share a task list with yourself''\<rparr>,
                demo_reached)"
    by (simp add: prod_eq_iff)
  from demo_calls_reach l t v p ne n show ?thesis by simp
qed

end
